theory Spec2Isabelle
  imports Main "HOL-Library.Word" "HOL-Library.Sublist"
begin

section \<open>Go values used by the commands\<close>

text \<open>
  The development embeds \<^verbatim>\<open>cmd/bg-prov/cmd.go\<close> (the \<^verbatim>\<open>Run\<close> methods of the
  provisioning commands) and \<^verbatim>\<open>NVReadAll\<close>. A Go call either returns or panics; a
  returned \<^verbatim>\<open>error\<close> is a value.
\<close>

type_synonym byte = "8 word"

datatype 'a go = Returns 'a | Panics

text \<open>
  Errors made outside \<^verbatim>\<open>cmd.go\<close> (by the operating system, the TPM or the manifest
  library): \<^verbatim>\<open>io.EOF\<close>, any other error, and an error that wraps another one and
  answers \<^verbatim>\<open>Unwrap\<close>.
\<close>

datatype liberror = EOF | LibError string | LibWrap string liberror

text \<open>\<^verbatim>\<open>errors.Is(err, io.EOF)\<close>: follows the chain of wrapped errors.\<close>

primrec errors_Is_EOF :: "liberror \<Rightarrow> bool" where
  "errors_Is_EOF EOF = True"
| "errors_Is_EOF (LibError m) = False"
| "errors_Is_EOF (LibWrap m e) = errors_Is_EOF e"

text \<open>
  The errors a \<^verbatim>\<open>Run\<close> method returns: an error of the library handed on as it is,
  an error made by \<^verbatim>\<open>fmt.Errorf\<close> in \<^verbatim>\<open>cmd.go\<close> from a message alone, and one made
  there with \<^verbatim>\<open>%w\<close> around a library error. An error made in \<^verbatim>\<open>cmd.go\<close> is a fresh
  value, equal to no error of the library.
\<close>

datatype error = Lib liberror | Errorf string | ErrorfW string liberror

text \<open>
  A byte slice: its elements, and the bytes of the backing array between its length and
  its capacity. The slice expression \<^verbatim>\<open>s[:n]\<close> is legal up to the capacity (it then
  reaches into the spare bytes) and panics beyond it.
\<close>

record slice =
  elems :: "byte list"
  spare :: "byte list"

definition slice_cap :: "slice \<Rightarrow> nat" where
  "slice_cap s = length (elems s) + length (spare s)"

definition slice_upto :: "slice \<Rightarrow> nat \<Rightarrow> slice go" where
  "slice_upto s n =
     (if n \<le> slice_cap s
      then Returns \<lparr>elems = take n (elems s @ spare s), spare = drop n (elems s @ spare s)\<rparr>
      else Panics)"

text \<open>
  \<^verbatim>\<open>crypto.PrivateKey\<close> is an empty interface; the commands distinguish the dynamic
  types \<^verbatim>\<open>*rsa.PrivateKey\<close> and \<^verbatim>\<open>*ecdsa.PrivateKey\<close> from every other one, and
  assert \<^verbatim>\<open>crypto.Signer\<close>, which a key of another type may or may not implement. The
  key material is a number.
\<close>

datatype PrivateKey = RSAPrivateKey nat | ECDSAPrivateKey nat | OtherSigner nat | NotASigner nat

datatype PublicKey = RSAPublicKey nat | ECDSAPublicKey nat | OtherPublicKey nat

text \<open>The type assertion \<^verbatim>\<open>key.(crypto.Signer)\<close>: it panics when it fails.\<close>

primrec crypto_Signer :: "PrivateKey \<Rightarrow> PrivateKey go" where
  "crypto_Signer (RSAPrivateKey k) = Returns (RSAPrivateKey k)"
| "crypto_Signer (ECDSAPrivateKey k) = Returns (ECDSAPrivateKey k)"
| "crypto_Signer (OtherSigner k) = Returns (OtherSigner k)"
| "crypto_Signer (NotASigner k) = Panics"

section \<open>NVReadAll\<close>

text \<open>
  \<^verbatim>\<open>
  func NVReadAll(conn io.ReadWriteCloser, index uint32, auth [20]byte) []byte {
      ret := []byte{}
      for i := uint32(0); ; i += 1 {
          b, err := tpm1.NVReadValue(conn, index, i, 1, auth)
          if err != nil {
              return ret
          }
          ret = append(ret, b[0])
      }
  }
  \<close>
  \<^verbatim>\<open>NVReadValue\<close> belongs to go-tpm; it is a parameter here: from the connection, the
  index, the offset, the length and the authorisation it gives the bytes read, an
  optional error and the connection afterwards. The loop has no exit but the failing
  read, so it is a partial function: \<open>None\<close> is the run that never returns. The counter
  is a 32-bit word and wraps. \<^verbatim>\<open>b[0]\<close> on an empty slice panics.
\<close>

type_synonym 'c nvread =
  "'c \<Rightarrow> 32 word \<Rightarrow> 32 word \<Rightarrow> 32 word \<Rightarrow> byte list \<Rightarrow> (byte list \<times> liberror option) \<times> 'c"

partial_function (option) NVReadAll_loop ::
  "'c nvread \<Rightarrow> 'c \<Rightarrow> 32 word \<Rightarrow> byte list \<Rightarrow> 32 word \<Rightarrow> byte list \<Rightarrow> (byte list go \<times> 'c) option"
where
  "NVReadAll_loop NVReadValue conn index auth i ret =
     (case NVReadValue conn index i 1 auth of
        ((b, Some err), conn') \<Rightarrow> Some (Returns ret, conn')
      | ((b, None), conn') \<Rightarrow>
          (case b of
             [] \<Rightarrow> Some (Panics, conn')
           | b0 # _ \<Rightarrow> NVReadAll_loop NVReadValue conn' index auth (i + 1) (ret @ [b0])))"

definition NVReadAll :: "'c nvread \<Rightarrow> 'c \<Rightarrow> 32 word \<Rightarrow> byte list \<Rightarrow> (byte list go \<times> 'c) option" where
  "NVReadAll NVReadValue conn index auth = NVReadAll_loop NVReadValue conn index auth 0 []"

text \<open>
  The sequence the claim describes, written on its own: \<open>k\<close> successful one-byte reads
  at the offsets \<open>i, i + 1, ...\<close>, each giving at least one byte, of which the first is
  kept. \<open>None\<close> when one of these reads fails or gives no byte.
\<close>

fun one_byte_reads :: "'c nvread \<Rightarrow> 'c \<Rightarrow> 32 word \<Rightarrow> byte list \<Rightarrow> 32 word \<Rightarrow> nat \<Rightarrow> (byte list \<times> 'c) option" where
  "one_byte_reads rd conn index auth i 0 = Some ([], conn)"
| "one_byte_reads rd conn index auth i (Suc k) =
     (case rd conn index i 1 auth of
        ((b0 # _, None), conn') \<Rightarrow>
          (case one_byte_reads rd conn' index auth (i + 1) k of
             Some (bs, conn'') \<Rightarrow> Some (b0 # bs, conn'')
           | None \<Rightarrow> None)
      | _ \<Rightarrow> None)"

text \<open>A TPM stand-in for the closed instances: the connection is the NV area itself.\<close>

definition nv_area_read :: "byte list nvread" where
  "nv_area_read conn index offset n auth =
     (if unat offset < length conn
      then ((take (unat n) (drop (unat offset) conn), None), conn)
      else (([], Some (LibError ''offset out of range'')), conn))"

section \<open>The manifest structures\<close>

text \<open>
  Modelled from the spec: the struct declarations of the packages \<^verbatim>\<open>manifest\<close>,
  \<^verbatim>\<open>bootpolicy\<close>, \<^verbatim>\<open>key\<close> and \<^verbatim>\<open>bg\<close> are not among the sources. The records hold the
  fields \<^verbatim>\<open>cmd.go\<close> reads and writes, under their names there, and what section 3 of
  the specification lists: a key descriptor is an algorithm tag and the key material, a
  signature descriptor a hash algorithm tag and the signature bytes. Two fields called
  \<^verbatim>\<open>HashAlg\<close>, \<^verbatim>\<open>Flags\<close> or \<^verbatim>\<open>Size\<close> are told apart by a suffix. No property below
  depends on the width of a field but on that of the two offsets, which \<^verbatim>\<open>cmd.go\<close>
  converts with \<^verbatim>\<open>int(...)\<close> or uses as a slice index.
\<close>

type_synonym Algorithm = "16 word"

record manifest_Key =
  KeyAlg :: Algorithm
  KeyData :: "byte list"

record manifest_Signature =
  HashAlg :: Algorithm
  SigData :: "byte list"

record KeySignature =
  Key :: manifest_Key
  Signature :: manifest_Signature

record HashStructure =
  HashAlg_hs :: Algorithm
  HashBuffer :: "byte list"

record HashList =
  Size_hl :: "16 word"
  List_hl :: "HashStructure list"

record bp_IBBSegment =
  Flags_seg :: "16 word"
  Base :: "32 word"
  Size_seg :: "32 word"

record bp_SE =
  PBETValue :: "8 word"
  Flags_se :: "32 word"
  IBBMCHBAR :: "64 word"
  VTdBAR :: "64 word"
  DMAProtBase0 :: "32 word"
  DMAProtLimit0 :: "32 word"
  DMAProtBase1 :: "64 word"
  DMAProtLimit1 :: "64 word"
  IBBEntryPoint :: "32 word"
  DigestList :: HashList
  IBBSegments :: "bp_IBBSegment list"

record bp_TXT =
  SInitMinSVNAuth :: "8 word"
  ControlFlags :: "32 word"
  PwrDownInterval :: "16 word"
  ACPIBaseOffset :: "16 word"
  PwrMBaseOffset :: "32 word"
  PTTCMOSOffset0 :: "8 word"
  PTTCMOSOffset1 :: "8 word"

record bp_BPMH =
  BPMRevision :: "8 word"
  BPMSVN :: "8 word"
  ACMSVNAuth :: "8 word"
  NEMDataStack :: "16 word"
  KeySignatureOffset :: "16 word"

record bp_Manifest =
  BPMH :: bp_BPMH
  SE :: "bp_SE list"
  TXTE :: "bp_TXT option"
  PMSE :: KeySignature

record key_Hash =
  Usage :: "64 word"
  Digest :: HashStructure

record key_Manifest =
  Revision :: "8 word"
  KMSVN :: "8 word"
  KMID :: "8 word"
  PubKeyHashAlg :: Algorithm
  Hash :: "key_Hash list"
  KeyManifestSignatureOffset :: "16 word"
  KeyAndSignature :: KeySignature

record BootGuardOptions =
  BootPolicyManifest :: bp_Manifest
  KeyManifest :: key_Manifest

text \<open>The zero values of \<^verbatim>\<open>var bgo bg.BootGuardOptions\<close> and its parts.\<close>

definition zero_KeySignature :: KeySignature where
  "zero_KeySignature = \<lparr>Key = \<lparr>KeyAlg = 0, KeyData = []\<rparr>, Signature = \<lparr>HashAlg = 0, SigData = []\<rparr>\<rparr>"

definition zero_bp_Manifest :: bp_Manifest where
  "zero_bp_Manifest =
     \<lparr>BPMH = \<lparr>BPMRevision = 0, BPMSVN = 0, ACMSVNAuth = 0, NEMDataStack = 0, KeySignatureOffset = 0\<rparr>,
      SE = [], TXTE = None, PMSE = zero_KeySignature\<rparr>"

definition zero_key_Manifest :: key_Manifest where
  "zero_key_Manifest =
     \<lparr>Revision = 0, KMSVN = 0, KMID = 0, PubKeyHashAlg = 0, Hash = [],
      KeyManifestSignatureOffset = 0, KeyAndSignature = zero_KeySignature\<rparr>"

definition zero_BootGuardOptions :: BootGuardOptions where
  "zero_BootGuardOptions = \<lparr>BootPolicyManifest = zero_bp_Manifest, KeyManifest = zero_key_Manifest\<rparr>"

section \<open>The functions cmd.go calls\<close>

text \<open>
  The functions of \<^verbatim>\<open>ioutil\<close>, \<^verbatim>\<open>os\<close> and of the packages \<^verbatim>\<open>bg\<close>, \<^verbatim>\<open>manifest\<close>,
  \<^verbatim>\<open>bootpolicy\<close> and \<^verbatim>\<open>key\<close> are not among the sources: every \<^verbatim>\<open>Run\<close> method takes
  them as the parameter \<open>L\<close>. A function that reads or writes files takes the file system
  and, when it writes, gives the new one. A function whose error the caller may ignore
  gives its value and an optional error; one whose value is used only without an error
  gives a sum. A method that changes its receiver gives the receiver afterwards;
  \<^verbatim>\<open>ReadFrom\<close> starts from the zero value the caller declares. Serialisation and the
  offset getters leave the manifest as it is (section 4.2: assembly only lays out bytes).
\<close>

type_synonym fs = "string \<Rightarrow> byte list option"

record lib =
  ReadFile :: "string \<Rightarrow> fs \<Rightarrow> slice \<times> liberror option"
  WriteFile :: "string \<Rightarrow> byte list \<Rightarrow> fs \<Rightarrow> liberror option \<times> fs"
  Create :: "string \<Rightarrow> fs \<Rightarrow> liberror option \<times> fs"
  ParseConfig :: "string \<Rightarrow> fs \<Rightarrow> liberror + BootGuardOptions"
  WriteConfig :: "string \<Rightarrow> BootGuardOptions \<Rightarrow> fs \<Rightarrow> liberror option \<times> fs"
  GetBPMPubHash :: "string \<Rightarrow> Algorithm \<Rightarrow> fs \<Rightarrow> liberror + key_Hash list"
  ReadPubKey :: "string \<Rightarrow> fs \<Rightarrow> liberror + PublicKey"
  DecryptPrivKey :: "byte list \<Rightarrow> string \<Rightarrow> liberror + PrivateKey"
  WriteKM :: "key_Manifest \<Rightarrow> liberror + slice"
  WriteBPM :: "bp_Manifest \<Rightarrow> liberror + slice"
  GenerateBPM :: "BootGuardOptions \<Rightarrow> string \<Rightarrow> fs \<Rightarrow> liberror + bp_Manifest"
  StitchFITEntries :: "string \<Rightarrow> slice \<Rightarrow> slice \<Rightarrow> slice \<Rightarrow> fs \<Rightarrow> liberror option \<times> fs"
  key_NewManifest :: key_Manifest
  km_ReadFrom :: "byte list \<Rightarrow> key_Manifest \<times> liberror option"
  km_RehashRecursive :: "key_Manifest \<Rightarrow> key_Manifest"
  km_KeyAndSignatureOffset :: "key_Manifest \<Rightarrow> nat"
  km_SetSignature :: "Algorithm \<Rightarrow> PrivateKey \<Rightarrow> byte list \<Rightarrow> key_Manifest \<Rightarrow> liberror + key_Manifest"
  NewSE :: bp_SE
  NewIBBSegment :: bp_IBBSegment
  NewTXT :: bp_TXT
  NewSignature :: KeySignature
  bpm_ReadFrom :: "byte list \<Rightarrow> bp_Manifest \<times> liberror option"
  bpm_RehashRecursive :: "bp_Manifest \<Rightarrow> bp_Manifest"
  bpm_PMSEOffset :: "bp_Manifest \<Rightarrow> nat"
  Key_SetPubKey :: "PublicKey \<Rightarrow> manifest_Key \<Rightarrow> manifest_Key \<times> liberror option"
  Key_PrintMEKey :: "manifest_Key \<Rightarrow> liberror option"
  Signature_SetSignature :: "Algorithm \<Rightarrow> PrivateKey \<Rightarrow> byte list \<Rightarrow> manifest_Signature \<Rightarrow> liberror + manifest_Signature"

text \<open>
  What a command leaves behind: the files, and the record of the calls the properties
  speak of, in the order the command makes them: \<^verbatim>\<open>ReadFrom\<close> over some bytes,
  \<^verbatim>\<open>RehashRecursive\<close>, a successful \<^verbatim>\<open>WriteKM\<close> or \<^verbatim>\<open>WriteBPM\<close> of a manifest,
  \<^verbatim>\<open>SetSignature\<close> with a key over some bytes, \<^verbatim>\<open>StitchFITEntries\<close>, and
  \<^verbatim>\<open>ioutil.WriteFile\<close> of the command's result.
\<close>

datatype call =
    Parsed "byte list"
  | Rehashed
  | SerializedKM key_Manifest
  | SerializedBPM bp_Manifest
  | Signed PrivateKey "byte list"
  | Stitched
  | Wrote string "byte list"

record world =
  files :: fs
  calls :: "call list"

definition logged :: "call \<Rightarrow> world \<Rightarrow> world" where
  "logged c w = w\<lparr>calls := calls w @ [c]\<rparr>"

section \<open>stitchingCmd.Run\<close>

text \<open>
  Lines 589 to 600. The three reads drop their errors (\<^verbatim>\<open>bpm, _ := ioutil.ReadFile\<close>),
  so an unreadable file counts as whatever bytes the read gave.
\<close>

record stitchingCmd =
  st_BIOS :: string
  st_ACM :: string
  st_KM :: string
  st_BPM :: string

definition stitchingCmd_Run :: "lib \<Rightarrow> stitchingCmd \<Rightarrow> world \<Rightarrow> error option go \<times> world" where
  "stitchingCmd_Run L s w =
     (let bpm = fst (ReadFile L (st_BPM s) (files w));
          km = fst (ReadFile L (st_KM s) (files w));
          acm = fst (ReadFile L (st_ACM s) (files w))
      in if length (elems acm) = 0 \<and> length (elems km) = 0 \<and> length (elems bpm) = 0
         then (Returns (Some (Errorf ''at least one optional parameter required'')), w)
         else (case StitchFITEntries L (st_BIOS s) acm bpm km (files w) of
                 (Some err, fs') \<Rightarrow> (Returns (Some (Lib err)), logged Stitched (w\<lparr>files := fs'\<rparr>))
               | (None, fs') \<Rightarrow> (Returns None, logged Stitched (w\<lparr>files := fs'\<rparr>))))"

section \<open>signKMCmd.Run\<close>

record signKMCmd =
  skm_KmIn :: string
  skm_KmOut :: string
  skm_Key :: string
  skm_Password :: string

text \<open>
  Lines 465 to 477: the manifest is rehashed, the raw input is cut at the offset the
  rehashed manifest gives, the key is asserted to be a \<^verbatim>\<open>crypto.Signer\<close>, the
  signature is set, and the manifest is serialised and written.
\<close>

definition signKMCmd_sign ::
  "lib \<Rightarrow> signKMCmd \<Rightarrow> PrivateKey \<Rightarrow> slice \<Rightarrow> key_Manifest \<Rightarrow> world \<Rightarrow> error option go \<times> world" where
  "signKMCmd_sign L s privkey kmRaw km0 w =
     (let km1 = km_RehashRecursive L km0;
          w1 = logged Rehashed w
      in case slice_upto kmRaw (km_KeyAndSignatureOffset L km1) of
        Panics \<Rightarrow> (Panics, w1)
      | Returns unsignedKM \<Rightarrow>
     (case crypto_Signer privkey of
        Panics \<Rightarrow> (Panics, w1)
      | Returns signer \<Rightarrow>
     (let w2 = logged (Signed signer (elems unsignedKM)) w1
      in case km_SetSignature L 0 signer (elems unsignedKM) km1 of
        Inl err \<Rightarrow> (Returns (Some (Lib err)), w2)
      | Inr km2 \<Rightarrow>
     (case WriteKM L km2 of
        Inl err \<Rightarrow> (Returns (Some (Lib err)), w2)
      | Inr bKMSigned \<Rightarrow>
     (let w3 = logged (Wrote (skm_KmOut s) (elems bKMSigned)) (logged (SerializedKM km2) w2)
      in case WriteFile L (skm_KmOut s) (elems bKMSigned) (files w3) of
        (Some err, fs') \<Rightarrow> (Returns (Some (Lib err)), w3\<lparr>files := fs'\<rparr>)
      | (None, fs') \<Rightarrow> (Returns None, w3\<lparr>files := fs'\<rparr>))))))"

text \<open>Lines 446 to 464: the key and the manifest are read; every error returns.\<close>

definition signKMCmd_Run :: "lib \<Rightarrow> signKMCmd \<Rightarrow> world \<Rightarrow> error option go \<times> world" where
  "signKMCmd_Run L s w =
     (case ReadFile L (skm_Key s) (files w) of
        (encKey, Some err) \<Rightarrow> (Returns (Some (Lib err)), w)
      | (encKey, None) \<Rightarrow>
     (case DecryptPrivKey L (elems encKey) (skm_Password s) of
        Inl err \<Rightarrow> (Returns (Some (Lib err)), w)
      | Inr privkey \<Rightarrow>
     (case ReadFile L (skm_KmIn s) (files w) of
        (kmRaw, Some err) \<Rightarrow> (Returns (Some (Lib err)), w)
      | (kmRaw, None) \<Rightarrow>
     (case km_ReadFrom L (elems kmRaw) of
        (km0, Some err) \<Rightarrow> (Returns (Some (Lib err)), logged (Parsed (elems kmRaw)) w)
      | (km0, None) \<Rightarrow> signKMCmd_sign L s privkey kmRaw km0 (logged (Parsed (elems kmRaw)) w)))))"

section \<open>signBPMCmd.Run\<close>

record signBPMCmd =
  sbpm_BpmIn :: string
  sbpm_BpmOut :: string
  sbpm_Key :: string
  sbpm_Password :: string

text \<open>
  Lines 499 to 507: a new signature element, its key set from the public half of an
  RSA or ECDSA key (the error of \<^verbatim>\<open>SetPubKey\<close> is dropped); no element for a key of
  another type.
\<close>

definition signBPMCmd_kAs :: "lib \<Rightarrow> PrivateKey \<Rightarrow> KeySignature option" where
  "signBPMCmd_kAs L key =
     (case key of
        RSAPrivateKey k \<Rightarrow>
          Some ((NewSignature L)\<lparr>Key := fst (Key_SetPubKey L (RSAPublicKey k) (Key (NewSignature L)))\<rparr>)
      | ECDSAPrivateKey k \<Rightarrow>
          Some ((NewSignature L)\<lparr>Key := fst (Key_SetPubKey L (ECDSAPublicKey k) (Key (NewSignature L)))\<rparr>)
      | OtherSigner k \<Rightarrow> None
      | NotASigner k \<Rightarrow> None)"

text \<open>
  Lines 499 to 527: the new element replaces \<^verbatim>\<open>bpm.PMSE\<close>, the manifest is serialised,
  then rehashed, the serialisation is cut at the \<^verbatim>\<open>KeySignatureOffset\<close> of the rehashed
  manifest, the signature is set over the cut bytes, and the manifest is serialised again
  and written.
\<close>

definition signBPMCmd_sign ::
  "lib \<Rightarrow> signBPMCmd \<Rightarrow> PrivateKey \<Rightarrow> bp_Manifest \<Rightarrow> world \<Rightarrow> error option go \<times> world" where
  "signBPMCmd_sign L s key bpm0 w =
     (case signBPMCmd_kAs L key of
        None \<Rightarrow> (Returns (Some (Errorf ''Invalid key type'')), w)
      | Some kAs \<Rightarrow>
     (let bpm1 = bpm0\<lparr>PMSE := kAs\<rparr>
      in case WriteBPM L bpm1 of
        Inl err \<Rightarrow> (Returns (Some (Lib err)), w)
      | Inr bpmRaw \<Rightarrow>
     (let bpm2 = bpm_RehashRecursive L bpm1;
          w2 = logged Rehashed (logged (SerializedBPM bpm1) w)
      in case slice_upto bpmRaw (unat (KeySignatureOffset (BPMH bpm2))) of
        Panics \<Rightarrow> (Panics, w2)
      | Returns unsignedBPM \<Rightarrow>
     (case crypto_Signer key of
        Panics \<Rightarrow> (Panics, w2)
      | Returns signer \<Rightarrow>
     (let w3 = logged (Signed signer (elems unsignedBPM)) w2
      in case Signature_SetSignature L 0 signer (elems unsignedBPM) (Signature (PMSE bpm2)) of
        Inl err \<Rightarrow> (Returns (Some (ErrorfW ''unable to make a signature: %w'' err)), w3)
      | Inr sg \<Rightarrow>
     (let bpm3 = bpm2\<lparr>PMSE := (PMSE bpm2)\<lparr>Signature := sg\<rparr>\<rparr>
      in case WriteBPM L bpm3 of
        Inl err \<Rightarrow> (Returns (Some (Lib err)), w3)
      | Inr bBPMSigned \<Rightarrow>
     (let w4 = logged (Wrote (sbpm_BpmOut s) (elems bBPMSigned)) (logged (SerializedBPM bpm3) w3)
      in case WriteFile L (sbpm_BpmOut s) (elems bBPMSigned) (files w4) of
        (Some err, fs') \<Rightarrow>
          (Returns (Some (ErrorfW ''unable to write BPM to file: %w'' err)), w4\<lparr>files := fs'\<rparr>)
      | (None, fs') \<Rightarrow> (Returns None, w4\<lparr>files := fs'\<rparr>))))))))"

text \<open>
  Lines 480 to 498: the key and the manifest are read; a parse error returns only when
  it is not \<^verbatim>\<open>io.EOF\<close> (\<^verbatim>\<open>err != nil && !errors.Is(err, io.EOF)\<close>).
\<close>

definition signBPMCmd_Run :: "lib \<Rightarrow> signBPMCmd \<Rightarrow> world \<Rightarrow> error option go \<times> world" where
  "signBPMCmd_Run L s w =
     (case ReadFile L (sbpm_Key s) (files w) of
        (encKey, Some err) \<Rightarrow> (Returns (Some (Lib err)), w)
      | (encKey, None) \<Rightarrow>
     (case DecryptPrivKey L (elems encKey) (sbpm_Password s) of
        Inl err \<Rightarrow> (Returns (Some (Lib err)), w)
      | Inr key \<Rightarrow>
     (case ReadFile L (sbpm_BpmIn s) (files w) of
        (bpmRaw, Some err) \<Rightarrow> (Returns (Some (Lib err)), w)
      | (bpmRaw, None) \<Rightarrow>
     (case bpm_ReadFrom L (elems bpmRaw) of
        (bpm0, perr) \<Rightarrow>
     (case (case perr of
              None \<Rightarrow> None
            | Some err \<Rightarrow> if \<not> errors_Is_EOF err then Some err else None) of
        Some err \<Rightarrow> (Returns (Some (Lib err)), logged (Parsed (elems bpmRaw)) w)
      | None \<Rightarrow> signBPMCmd_sign L s key bpm0 (logged (Parsed (elems bpmRaw)) w))))))"

section \<open>generateKMCmd.Run\<close>

record generateKMCmd =
  gkm_KM :: string
  gkm_Key :: string
  gkm_Config :: string
  gkm_Revision :: "8 word"
  gkm_SVN :: "8 word"
  gkm_ID :: "8 word"
  gkm_PKHashAlg :: Algorithm
  gkm_KMHashes :: "key_Hash list"
  gkm_BpmPubkey :: string
  gkm_BpmHashAlg :: Algorithm
  gkm_Out :: string
  gkm_Cut :: bool
  gkm_PrintME :: bool


text \<open>
  Lines 351 to 358: with \<^verbatim>\<open>Cut\<close>, the slice expression
  \<^verbatim>\<open>bKM[:int(options.KeyManifest.KeyManifestSignatureOffset)]\<close>; then the file is
  written.
\<close>

definition generateKMCmd_cut_and_write ::
  "lib \<Rightarrow> generateKMCmd \<Rightarrow> BootGuardOptions \<Rightarrow> slice \<Rightarrow> world \<Rightarrow> error option go \<times> world" where
  "generateKMCmd_cut_and_write L g options bKM w =
     (case (if gkm_Cut g
            then slice_upto bKM (unat (KeyManifestSignatureOffset (KeyManifest options)))
            else Returns bKM) of
        Panics \<Rightarrow> (Panics, w)
      | Returns bKM' \<Rightarrow>
     (let w3 = logged (Wrote (gkm_KM g) (elems bKM')) w
      in case WriteFile L (gkm_KM g) (elems bKM') (files w3) of
        (Some err, fs') \<Rightarrow>
          (Returns (Some (ErrorfW ''unable to write KM to file: %w'' err)), w3\<lparr>files := fs'\<rparr>)
      | (None, fs') \<Rightarrow> (Returns None, w3\<lparr>files := fs'\<rparr>)))"


section \<open>generateBPMCmd.Run\<close>





section \<open>Error kinds and predicates of the properties\<close>

text \<open>The error of line 594, which the specification calls \<^verbatim>\<open>NoPayloadError\<close>.\<close>

definition NoPayloadError :: error where
  "NoPayloadError = Errorf ''at least one optional parameter required''"

text \<open>All three payloads, as the reads of lines 590 to 592 gave them, are empty.\<close>

definition payloads_empty :: "lib \<Rightarrow> stitchingCmd \<Rightarrow> world \<Rightarrow> bool" where
  "payloads_empty L s w =
     (elems (fst (ReadFile L (st_ACM s) (files w))) = []
      \<and> elems (fst (ReadFile L (st_KM s) (files w))) = []
      \<and> elems (fst (ReadFile L (st_BPM s) (files w))) = [])"

text \<open>
  Modelled from the spec: the error kind \<^verbatim>\<open>FITNotFoundError\<close> of section 7; the library
  that makes it is not among the sources.
\<close>

definition FITNotFoundError :: liberror where
  "FITNotFoundError = LibError ''FITNotFoundError''"

section \<open>A small library for the closed instances\<close>

text \<open>
  Modelled from the spec: a stand-in for the packages \<^verbatim>\<open>bg\<close>, \<^verbatim>\<open>manifest\<close>,
  \<^verbatim>\<open>bootpolicy\<close>, \<^verbatim>\<open>key\<close>, \<^verbatim>\<open>ioutil\<close> and \<^verbatim>\<open>os\<close>, none of which is among the
  sources. It is used where a property is evaluated at a concrete input; the general
  theorems hold for any library, except the one on stitching, which is about the
  stitcher below. A manifest is a header of three bytes and the
  stored offset of the signature element, followed by the signature element (key
  algorithm, one byte of key material, hash algorithm, signature bytes); the header
  precedes the signature element, as sections 3 and 4.2 require. \<^verbatim>\<open>RehashRecursive\<close>
  recomputes what the manifest stores about itself, here the offset. A signature is the
  number of the key and the sum of the signed bytes.
\<close>

definition demo_ReadFile :: "string \<Rightarrow> fs \<Rightarrow> slice \<times> liberror option" where
  "demo_ReadFile p f =
     (case f p of
        None \<Rightarrow> (\<lparr>elems = [], spare = []\<rparr>, Some (LibError ''no such file''))
      | Some bs \<Rightarrow> (\<lparr>elems = bs, spare = []\<rparr>, None))"

definition demo_WriteFile :: "string \<Rightarrow> byte list \<Rightarrow> fs \<Rightarrow> liberror option \<times> fs" where
  "demo_WriteFile p bs f = (None, f(p \<mapsto> bs))"

definition demo_Create :: "string \<Rightarrow> fs \<Rightarrow> liberror option \<times> fs" where
  "demo_Create p f = (None, f(p \<mapsto> []))"

definition demo_DecryptPrivKey :: "byte list \<Rightarrow> string \<Rightarrow> liberror + PrivateKey" where
  "demo_DecryptPrivKey enc pw =
     (case enc of
        [t, n] \<Rightarrow>
          (if t = 1 then Inr (RSAPrivateKey (unat n))
           else if t = 2 then Inr (ECDSAPrivateKey (unat n))
           else if t = 3 then Inr (OtherSigner (unat n))
           else Inr (NotASigner (unat n)))
      | _ \<Rightarrow> Inl (LibError ''cannot decrypt''))"

primrec demo_key_id :: "PrivateKey \<Rightarrow> byte" where
  "demo_key_id (RSAPrivateKey k) = of_nat k"
| "demo_key_id (ECDSAPrivateKey k) = of_nat k"
| "demo_key_id (OtherSigner k) = of_nat k"
| "demo_key_id (NotASigner k) = of_nat k"

definition demo_sign :: "PrivateKey \<Rightarrow> byte list \<Rightarrow> manifest_Signature" where
  "demo_sign k d = \<lparr>HashAlg = 0x0B, SigData = [demo_key_id k, sum_list d]\<rparr>"

definition demo_Key_SetPubKey :: "PublicKey \<Rightarrow> manifest_Key \<Rightarrow> manifest_Key \<times> liberror option" where
  "demo_Key_SetPubKey pub k =
     (case pub of
        RSAPublicKey n \<Rightarrow> (\<lparr>KeyAlg = 0x01, KeyData = [of_nat n]\<rparr>, None)
      | ECDSAPublicKey n \<Rightarrow> (\<lparr>KeyAlg = 0x23, KeyData = [of_nat n]\<rparr>, None)
      | OtherPublicKey n \<Rightarrow> (k, Some (LibError ''unsupported public key'')))"

definition demo_KeySignature_bytes :: "KeySignature \<Rightarrow> byte list" where
  "demo_KeySignature_bytes ks =
     ucast (KeyAlg (Key ks)) # KeyData (Key ks) @ ucast (HashAlg (Signature ks)) # SigData (Signature ks)"

definition demo_WriteKM :: "key_Manifest \<Rightarrow> liberror + slice" where
  "demo_WriteKM km =
     Inr \<lparr>elems = [Revision km, KMSVN km, KMID km, ucast (KeyManifestSignatureOffset km)]
                  @ demo_KeySignature_bytes (KeyAndSignature km),
          spare = []\<rparr>"

definition demo_km_ReadFrom :: "byte list \<Rightarrow> key_Manifest \<times> liberror option" where
  "demo_km_ReadFrom bs =
     (case bs of
        r # v # i # off # ka # kd # ha # sg \<Rightarrow>
          (zero_key_Manifest\<lparr>Revision := r, KMSVN := v, KMID := i,
             KeyManifestSignatureOffset := ucast off,
             KeyAndSignature := \<lparr>Key = \<lparr>KeyAlg = ucast ka, KeyData = [kd]\<rparr>,
                                  Signature = \<lparr>HashAlg = ucast ha, SigData = sg\<rparr>\<rparr>\<rparr>, None)
      | _ \<Rightarrow> (zero_key_Manifest, Some EOF))"

definition demo_km_RehashRecursive :: "key_Manifest \<Rightarrow> key_Manifest" where
  "demo_km_RehashRecursive km = km\<lparr>KeyManifestSignatureOffset := 4\<rparr>"

definition demo_km_SetSignature ::
  "Algorithm \<Rightarrow> PrivateKey \<Rightarrow> byte list \<Rightarrow> key_Manifest \<Rightarrow> liberror + key_Manifest" where
  "demo_km_SetSignature alg k d km =
     Inr (km\<lparr>KeyAndSignature := (KeyAndSignature km)\<lparr>Signature := demo_sign k d\<rparr>\<rparr>)"

definition demo_WriteBPM :: "bp_Manifest \<Rightarrow> liberror + slice" where
  "demo_WriteBPM bpm =
     Inr \<lparr>elems = [BPMRevision (BPMH bpm), BPMSVN (BPMH bpm), ACMSVNAuth (BPMH bpm),
                   ucast (KeySignatureOffset (BPMH bpm))]
                  @ demo_KeySignature_bytes (PMSE bpm),
          spare = []\<rparr>"

definition demo_bpm_ReadFrom :: "byte list \<Rightarrow> bp_Manifest \<times> liberror option" where
  "demo_bpm_ReadFrom bs =
     (case bs of
        r # v # a # off # rest \<Rightarrow>
          (let hdr = zero_bp_Manifest\<lparr>BPMH := \<lparr>BPMRevision = r, BPMSVN = v, ACMSVNAuth = a,
                       NEMDataStack = 0, KeySignatureOffset = ucast off\<rparr>\<rparr>
           in case rest of
                ka # kd # ha # sg \<Rightarrow>
                  (hdr\<lparr>PMSE := \<lparr>Key = \<lparr>KeyAlg = ucast ka, KeyData = [kd]\<rparr>,
                                 Signature = \<lparr>HashAlg = ucast ha, SigData = sg\<rparr>\<rparr>\<rparr>, None)
              | _ \<Rightarrow> (hdr, Some EOF))
      | _ \<Rightarrow> (zero_bp_Manifest, Some (LibError ''short header'')))"

definition demo_bpm_RehashRecursive :: "bp_Manifest \<Rightarrow> bp_Manifest" where
  "demo_bpm_RehashRecursive bpm = bpm\<lparr>BPMH := (BPMH bpm)\<lparr>KeySignatureOffset := 4\<rparr>\<rparr>"

definition demo_Signature_SetSignature ::
  "Algorithm \<Rightarrow> PrivateKey \<Rightarrow> byte list \<Rightarrow> manifest_Signature \<Rightarrow> liberror + manifest_Signature" where
  "demo_Signature_SetSignature alg k d sg = Inr (demo_sign k d)"

text \<open>
  Modelled from the spec: \<^verbatim>\<open>bg.StitchFITEntries\<close> of the package \<^verbatim>\<open>pkg/provisioning/bg\<close>,
  which is not among the sources; \<^verbatim>\<open>stitchingCmd.Run\<close> only calls it. Section 4.6: the
  stitcher locates the FIT by its fixed signature, here the eight bytes \<^verbatim>\<open>_FIT_\<close> and
  three blanks anywhere in the image; failure to locate it is fatal, the error is
  \<^verbatim>\<open>FITNotFoundError\<close> and there is no fallback layout, and (section 8) the image is left
  as it is. When the FIT is found the payloads are copied into the image; where they go
  is of no concern to the properties below, here they are put behind the image. An
  image file that cannot be read is another error.
\<close>

definition FIT_signature :: "byte list" where
  "FIT_signature = [0x5F, 0x46, 0x49, 0x54, 0x5F, 0x20, 0x20, 0x20]"

primrec has_FIT_signature :: "byte list \<Rightarrow> bool" where
  "has_FIT_signature [] = False"
| "has_FIT_signature (b # bs) = (take 8 (b # bs) = FIT_signature \<or> has_FIT_signature bs)"

definition demo_StitchFITEntries ::
  "string \<Rightarrow> slice \<Rightarrow> slice \<Rightarrow> slice \<Rightarrow> fs \<Rightarrow> liberror option \<times> fs" where
  "demo_StitchFITEntries bios acm bpm km f =
     (case f bios of
        None \<Rightarrow> (Some (LibError ''no such file''), f)
      | Some img \<Rightarrow>
          if has_FIT_signature img
          then (None, f(bios \<mapsto> img @ elems acm @ elems km @ elems bpm))
          else (Some FITNotFoundError, f))"

definition demo_ParseConfig :: "string \<Rightarrow> fs \<Rightarrow> liberror + BootGuardOptions" where
  "demo_ParseConfig p f =
     (case f p of
        None \<Rightarrow> Inl (LibError ''no such file'')
      | Some bs \<Rightarrow>
          (case bs of
             [] \<Rightarrow> Inl (LibError ''empty configuration'')
           | off # _ \<Rightarrow>
               Inr (zero_BootGuardOptions\<lparr>KeyManifest :=
                      zero_key_Manifest\<lparr>KeyManifestSignatureOffset := ucast off\<rparr>\<rparr>)))"

definition demo_WriteConfig :: "string \<Rightarrow> BootGuardOptions \<Rightarrow> fs \<Rightarrow> liberror option \<times> fs" where
  "demo_WriteConfig p options f =
     (None, f(p \<mapsto> [ucast (KeyManifestSignatureOffset (KeyManifest options))]))"

definition demo_ReadPubKey :: "string \<Rightarrow> fs \<Rightarrow> liberror + PublicKey" where
  "demo_ReadPubKey p f =
     (case f p of
        Some [t, n] \<Rightarrow>
          (if t = 1 then Inr (RSAPublicKey (unat n))
           else if t = 2 then Inr (ECDSAPublicKey (unat n))
           else Inr (OtherPublicKey (unat n)))
      | _ \<Rightarrow> Inl (LibError ''cannot read public key''))"

definition demo_GetBPMPubHash :: "string \<Rightarrow> Algorithm \<Rightarrow> fs \<Rightarrow> liberror + key_Hash list" where
  "demo_GetBPMPubHash p alg f =
     (case f p of
        None \<Rightarrow> Inl (LibError ''no such file'')
      | Some bs \<Rightarrow> Inr [\<lparr>Usage = 1, Digest = \<lparr>HashAlg_hs = alg, HashBuffer = [sum_list bs]\<rparr>\<rparr>])"

definition demo_GenerateBPM :: "BootGuardOptions \<Rightarrow> string \<Rightarrow> fs \<Rightarrow> liberror + bp_Manifest" where
  "demo_GenerateBPM options bios f =
     (case f bios of
        None \<Rightarrow> Inl (LibError ''no such file'')
      | Some img \<Rightarrow> Inr (demo_bpm_RehashRecursive (BootPolicyManifest options)))"

definition demo_NewSE :: bp_SE where
  "demo_NewSE = \<lparr>PBETValue = 0, Flags_se = 0, IBBMCHBAR = 0, VTdBAR = 0, DMAProtBase0 = 0,
     DMAProtLimit0 = 0, DMAProtBase1 = 0, DMAProtLimit1 = 0, IBBEntryPoint = 0,
     DigestList = \<lparr>Size_hl = 0, List_hl = []\<rparr>, IBBSegments = []\<rparr>"

definition demo_NewTXT :: bp_TXT where
  "demo_NewTXT = \<lparr>SInitMinSVNAuth = 0, ControlFlags = 0, PwrDownInterval = 0, ACPIBaseOffset = 0,
     PwrMBaseOffset = 0, PTTCMOSOffset0 = 0, PTTCMOSOffset1 = 0\<rparr>"

definition demo_lib :: lib where
  "demo_lib =
     \<lparr>ReadFile = demo_ReadFile, WriteFile = demo_WriteFile, Create = demo_Create,
      ParseConfig = demo_ParseConfig, WriteConfig = demo_WriteConfig,
      GetBPMPubHash = demo_GetBPMPubHash, ReadPubKey = demo_ReadPubKey,
      DecryptPrivKey = demo_DecryptPrivKey, WriteKM = demo_WriteKM, WriteBPM = demo_WriteBPM,
      GenerateBPM = demo_GenerateBPM, StitchFITEntries = demo_StitchFITEntries,
      key_NewManifest = zero_key_Manifest, km_ReadFrom = demo_km_ReadFrom,
      km_RehashRecursive = demo_km_RehashRecursive, km_KeyAndSignatureOffset = (\<lambda>km. 4),
      km_SetSignature = demo_km_SetSignature, NewSE = demo_NewSE,
      NewIBBSegment = \<lparr>Flags_seg = 0, Base = 0, Size_seg = 0\<rparr>, NewTXT = demo_NewTXT,
      NewSignature = zero_KeySignature, bpm_ReadFrom = demo_bpm_ReadFrom,
      bpm_RehashRecursive = demo_bpm_RehashRecursive, bpm_PMSEOffset = (\<lambda>bpm. 4),
      Key_SetPubKey = demo_Key_SetPubKey, Key_PrintMEKey = (\<lambda>k. None),
      Signature_SetSignature = demo_Signature_SetSignature\<rparr>"


text \<open>
  The files of the closed instances: an RSA and an ECDSA key and a key of another kind,
  a key manifest and a boot policy manifest whose stored offset is stale (0) and whose
  key descriptor is an RSA one, a boot policy manifest cut before its signature element,
  a BIOS image without a FIT, a configuration whose stored offset is 200, and a public
  RSA key.
\<close>

definition demo_files :: fs where
  "demo_files =
     [''rsa.key'' \<mapsto> [1, 7], ''ec.key'' \<mapsto> [2, 7], ''other.key'' \<mapsto> [3, 7],
      ''km.bin'' \<mapsto> [1, 2, 3, 0, 1, 9, 0], ''bpm.bin'' \<mapsto> [1, 2, 3, 0, 1, 9, 0],
      ''bpm.cut'' \<mapsto> [1, 2, 3, 4], ''km.cut'' \<mapsto> [1, 2, 3, 4], ''bios.bin'' \<mapsto> [0, 0, 0, 0],
      ''km.json'' \<mapsto> [200], ''rsa.pub'' \<mapsto> [1, 7]]"

definition demo_world :: world where
  "demo_world = \<lparr>files = demo_files, calls = []\<rparr>"

definition demo_stitch :: stitchingCmd where
  "demo_stitch = \<lparr>st_BIOS = ''bios.bin'', st_ACM = ''acm.bin'', st_KM = ''km.bin'', st_BPM = ''none''\<rparr>"

definition demo_signKM :: signKMCmd where
  "demo_signKM = \<lparr>skm_KmIn = ''km.bin'', skm_KmOut = ''km.signed'', skm_Key = ''rsa.key'',
     skm_Password = ''secret''\<rparr>"

definition demo_signBPM :: signBPMCmd where
  "demo_signBPM = \<lparr>sbpm_BpmIn = ''bpm.bin'', sbpm_BpmOut = ''bpm.signed'', sbpm_Key = ''rsa.key'',
     sbpm_Password = ''secret''\<rparr>"



section \<open>The element codec and the manifest assembler of the specification\<close>

text \<open>
  Modelled from the spec: the element codec and the manifest assembler (sections 4.1 and
  4.2) are the methods \<^verbatim>\<open>ReadFrom\<close> and \<^verbatim>\<open>WriteTo\<close> of the packages \<^verbatim>\<open>manifest\<close>,
  \<^verbatim>\<open>bootpolicy\<close> and \<^verbatim>\<open>key\<close>, which are not among the sources; \<^verbatim>\<open>cmd.go\<close> only
  calls them. This section follows the words of the specification. The error kinds are
  those of section 7 that the codec and the assembler raise.
\<close>

datatype codec_error = TruncatedInputError | UnsupportedElementError | InvalidManifestError

text \<open>
  Modelled from the spec: multi-byte integers are little-endian throughout (section
  4.1). \<open>le_bytes n w\<close> are the \<open>n\<close> low bytes of \<open>w\<close>, lowest first.
\<close>

primrec le_bytes :: "nat \<Rightarrow> 'a::len word \<Rightarrow> byte list" where
  "le_bytes 0 w = []"
| "le_bytes (Suc n) w = ucast w # le_bytes n (drop_bit 8 w)"

primrec le_word :: "byte list \<Rightarrow> 'a::len word" where
  "le_word [] = 0"
| "le_word (b # bs) = or (ucast b) (push_bit 8 (le_word bs))"

text \<open>
  Modelled from the spec: a decoder gives the value and the bytes left, or an error;
  \<open>and_then\<close> hands the result on or stops at the error. Reading past the end of the
  input is a \<^verbatim>\<open>TruncatedInputError\<close>.
\<close>

definition and_then :: "codec_error + 'a \<Rightarrow> ('a \<Rightarrow> codec_error + 'b) \<Rightarrow> codec_error + 'b" where
  "and_then r f = (case r of Inl e \<Rightarrow> Inl e | Inr x \<Rightarrow> f x)"

definition dec_word :: "nat \<Rightarrow> byte list \<Rightarrow> codec_error + ('a::len word \<times> byte list)" where
  "dec_word n bs =
     (if length bs < n then Inl TruncatedInputError else Inr (le_word (take n bs), drop n bs))"

text \<open>
  Modelled from the spec: key material, signatures and digests are byte strings, and
  the variable-length lists (segments, digest lists, key-hash lists) are
  length-prefixed (section 4.1); the prefix is a 16-bit count.
\<close>

definition enc_bytes :: "byte list \<Rightarrow> byte list" where
  "enc_bytes bs = le_bytes 2 (of_nat (length bs) :: 16 word) @ bs"

definition dec_bytes :: "byte list \<Rightarrow> codec_error + (byte list \<times> byte list)" where
  "dec_bytes bs =
     and_then (dec_word 2 bs) (\<lambda>(n :: 16 word, r).
       if length r < unat n then Inl TruncatedInputError
       else Inr (take (unat n) r, drop (unat n) r))"

definition enc_list :: "('a \<Rightarrow> byte list) \<Rightarrow> 'a list \<Rightarrow> byte list" where
  "enc_list enc xs = le_bytes 2 (of_nat (length xs) :: 16 word) @ concat (map enc xs)"

primrec dec_items ::
  "(byte list \<Rightarrow> codec_error + ('a \<times> byte list)) \<Rightarrow> nat \<Rightarrow> byte list \<Rightarrow> codec_error + ('a list \<times> byte list)" where
  "dec_items dec 0 bs = Inr ([], bs)"
| "dec_items dec (Suc n) bs =
     and_then (dec bs) (\<lambda>(x, r).
     and_then (dec_items dec n r) (\<lambda>(xs, r'). Inr (x # xs, r')))"

definition dec_list ::
  "(byte list \<Rightarrow> codec_error + ('a \<times> byte list)) \<Rightarrow> byte list \<Rightarrow> codec_error + ('a list \<times> byte list)" where
  "dec_list dec bs = and_then (dec_word 2 bs) (\<lambda>(n :: 16 word, r). dec_items dec (unat n) r)"

text \<open>
  Modelled from the spec: a digest is an algorithm identifier and the raw hash bytes; a
  digest list is an ordered sequence of digests (section 3). The record of \<^verbatim>\<open>cmd.go\<close>
  stores the size of the list beside the list; the encoding writes the list and the
  decoder sets the size from it.
\<close>

definition enc_HashStructure :: "HashStructure \<Rightarrow> byte list" where
  "enc_HashStructure h = le_bytes 2 (HashAlg_hs h) @ enc_bytes (HashBuffer h)"

definition dec_HashStructure :: "byte list \<Rightarrow> codec_error + (HashStructure \<times> byte list)" where
  "dec_HashStructure bs =
     and_then (dec_word 2 bs) (\<lambda>(a, r).
     and_then (dec_bytes r) (\<lambda>(d, r'). Inr (\<lparr>HashAlg_hs = a, HashBuffer = d\<rparr>, r')))"

definition enc_HashList :: "HashList \<Rightarrow> byte list" where
  "enc_HashList dl = enc_list enc_HashStructure (List_hl dl)"

definition dec_HashList :: "byte list \<Rightarrow> codec_error + (HashList \<times> byte list)" where
  "dec_HashList bs =
     and_then (dec_list dec_HashStructure bs) (\<lambda>(hs, r).
       Inr (\<lparr>Size_hl = of_nat (length hs), List_hl = hs\<rparr>, r))"

text \<open>
  Modelled from the spec: the IBB element (section 3): control flags, the base
  addresses, the two DMA protection ranges, the entry point, the segments (base, size,
  flags) and the digest list; \<^verbatim>\<open>PBETValue\<close> is the field \<^verbatim>\<open>cmd.go\<close> sets besides.
\<close>

definition enc_IBBSegment :: "bp_IBBSegment \<Rightarrow> byte list" where
  "enc_IBBSegment s = le_bytes 4 (Base s) @ le_bytes 4 (Size_seg s) @ le_bytes 2 (Flags_seg s)"

definition dec_IBBSegment :: "byte list \<Rightarrow> codec_error + (bp_IBBSegment \<times> byte list)" where
  "dec_IBBSegment bs =
     and_then (dec_word 4 bs) (\<lambda>(b, r1).
     and_then (dec_word 4 r1) (\<lambda>(s, r2).
     and_then (dec_word 2 r2) (\<lambda>(f, r3).
       Inr (\<lparr>Flags_seg = f, Base = b, Size_seg = s\<rparr>, r3))))"

definition enc_SE :: "bp_SE \<Rightarrow> byte list" where
  "enc_SE se =
     le_bytes 1 (PBETValue se) @ le_bytes 4 (Flags_se se) @ le_bytes 8 (IBBMCHBAR se)
     @ le_bytes 8 (VTdBAR se) @ le_bytes 4 (DMAProtBase0 se) @ le_bytes 4 (DMAProtLimit0 se)
     @ le_bytes 8 (DMAProtBase1 se) @ le_bytes 8 (DMAProtLimit1 se) @ le_bytes 4 (IBBEntryPoint se)
     @ enc_list enc_IBBSegment (IBBSegments se) @ enc_HashList (DigestList se)"

definition dec_SE :: "byte list \<Rightarrow> codec_error + (bp_SE \<times> byte list)" where
  "dec_SE bs =
     and_then (dec_word 1 bs) (\<lambda>(pbet, r1).
     and_then (dec_word 4 r1) (\<lambda>(fl, r2).
     and_then (dec_word 8 r2) (\<lambda>(mch, r3).
     and_then (dec_word 8 r3) (\<lambda>(vtd, r4).
     and_then (dec_word 4 r4) (\<lambda>(b0, r5).
     and_then (dec_word 4 r5) (\<lambda>(l0, r6).
     and_then (dec_word 8 r6) (\<lambda>(b1, r7).
     and_then (dec_word 8 r7) (\<lambda>(l1, r8).
     and_then (dec_word 4 r8) (\<lambda>(ep, r9).
     and_then (dec_list dec_IBBSegment r9) (\<lambda>(segs, r10).
     and_then (dec_HashList r10) (\<lambda>(dl, r11).
       Inr (\<lparr>PBETValue = pbet, Flags_se = fl, IBBMCHBAR = mch, VTdBAR = vtd, DMAProtBase0 = b0,
             DMAProtLimit0 = l0, DMAProtBase1 = b1, DMAProtLimit1 = l1, IBBEntryPoint = ep,
             DigestList = dl, IBBSegments = segs\<rparr>, r11))))))))))))"

text \<open>
  Modelled from the spec: the TXT element (section 3).
\<close>

definition enc_TXT :: "bp_TXT \<Rightarrow> byte list" where
  "enc_TXT t =
     le_bytes 1 (SInitMinSVNAuth t) @ le_bytes 4 (ControlFlags t) @ le_bytes 2 (PwrDownInterval t)
     @ le_bytes 2 (ACPIBaseOffset t) @ le_bytes 4 (PwrMBaseOffset t)
     @ le_bytes 1 (PTTCMOSOffset0 t) @ le_bytes 1 (PTTCMOSOffset1 t)"

definition dec_TXT :: "byte list \<Rightarrow> codec_error + (bp_TXT \<times> byte list)" where
  "dec_TXT bs =
     and_then (dec_word 1 bs) (\<lambda>(sm, r1).
     and_then (dec_word 4 r1) (\<lambda>(cf, r2).
     and_then (dec_word 2 r2) (\<lambda>(pd, r3).
     and_then (dec_word 2 r3) (\<lambda>(ac, r4).
     and_then (dec_word 4 r4) (\<lambda>(pm, r5).
     and_then (dec_word 1 r5) (\<lambda>(c0, r6).
     and_then (dec_word 1 r6) (\<lambda>(c1, r7).
       Inr (\<lparr>SInitMinSVNAuth = sm, ControlFlags = cf, PwrDownInterval = pd, ACPIBaseOffset = ac,
             PwrMBaseOffset = pm, PTTCMOSOffset0 = c0, PTTCMOSOffset1 = c1\<rparr>, r7))))))))"

text \<open>
  Modelled from the spec: the signature element (section 3): a key descriptor and a
  signature descriptor.
\<close>

definition enc_KeySignature :: "KeySignature \<Rightarrow> byte list" where
  "enc_KeySignature ks =
     le_bytes 2 (KeyAlg (Key ks)) @ enc_bytes (KeyData (Key ks))
     @ le_bytes 2 (HashAlg (Signature ks)) @ enc_bytes (SigData (Signature ks))"

definition dec_KeySignature :: "byte list \<Rightarrow> codec_error + (KeySignature \<times> byte list)" where
  "dec_KeySignature bs =
     and_then (dec_word 2 bs) (\<lambda>(ka, r1).
     and_then (dec_bytes r1) (\<lambda>(kd, r2).
     and_then (dec_word 2 r2) (\<lambda>(ha, r3).
     and_then (dec_bytes r3) (\<lambda>(sd, r4).
       Inr (\<lparr>Key = \<lparr>KeyAlg = ka, KeyData = kd\<rparr>, Signature = \<lparr>HashAlg = ha, SigData = sd\<rparr>\<rparr>, r4)))))"

text \<open>
  Modelled from the spec: the body of a key manifest (section 3): revision, SVN,
  identifier, hash algorithm of the public key, and the key-hash entries, each a usage
  and a digest.
\<close>

definition enc_key_Hash :: "key_Hash \<Rightarrow> byte list" where
  "enc_key_Hash h = le_bytes 8 (Usage h) @ enc_HashStructure (Digest h)"

definition dec_key_Hash :: "byte list \<Rightarrow> codec_error + (key_Hash \<times> byte list)" where
  "dec_key_Hash bs =
     and_then (dec_word 8 bs) (\<lambda>(u, r1).
     and_then (dec_HashStructure r1) (\<lambda>(d, r2). Inr (\<lparr>Usage = u, Digest = d\<rparr>, r2)))"

record KeyManifestBody =
  kb_Revision :: "8 word"
  kb_KMSVN :: "8 word"
  kb_KMID :: "8 word"
  kb_PubKeyHashAlg :: Algorithm
  kb_Hash :: "key_Hash list"

definition enc_KeyManifestBody :: "KeyManifestBody \<Rightarrow> byte list" where
  "enc_KeyManifestBody b =
     le_bytes 1 (kb_Revision b) @ le_bytes 1 (kb_KMSVN b) @ le_bytes 1 (kb_KMID b)
     @ le_bytes 2 (kb_PubKeyHashAlg b) @ enc_list enc_key_Hash (kb_Hash b)"

definition dec_KeyManifestBody :: "byte list \<Rightarrow> codec_error + (KeyManifestBody \<times> byte list)" where
  "dec_KeyManifestBody bs =
     and_then (dec_word 1 bs) (\<lambda>(rv, r1).
     and_then (dec_word 1 r1) (\<lambda>(sv, r2).
     and_then (dec_word 1 r2) (\<lambda>(kid, r3).
     and_then (dec_word 2 r3) (\<lambda>(pa, r4).
     and_then (dec_list dec_key_Hash r4) (\<lambda>(hs, r5).
       Inr (\<lparr>kb_Revision = rv, kb_KMSVN = sv, kb_KMID = kid, kb_PubKeyHashAlg = pa,
             kb_Hash = hs\<rparr>, r5))))))"

text \<open>
  Modelled from the spec: an element is a tagged variant; its encoding begins with a
  fixed-size type tag (one byte) and a length field (16 bits), followed by the fields of
  its kind. The decoder takes exactly the declared length, fails with
  \<^verbatim>\<open>TruncatedInputError\<close> when fewer bytes remain than declared and with
  \<^verbatim>\<open>UnsupportedElementError\<close> on an unknown tag, and goes on after the declared length.
  \<open>decode\<close> is the contract of section 4.1: from the bytes and a cursor, the element
  and the number of bytes consumed.
\<close>

datatype element =
    IBBElement bp_SE
  | TXTElement bp_TXT
  | SignatureElement KeySignature
  | KeyManifestBodyElement KeyManifestBody

primrec element_tag :: "element \<Rightarrow> byte" where
  "element_tag (IBBElement se) = 1"
| "element_tag (TXTElement t) = 2"
| "element_tag (SignatureElement ks) = 3"
| "element_tag (KeyManifestBodyElement b) = 4"

primrec element_payload :: "element \<Rightarrow> byte list" where
  "element_payload (IBBElement se) = enc_SE se"
| "element_payload (TXTElement t) = enc_TXT t"
| "element_payload (SignatureElement ks) = enc_KeySignature ks"
| "element_payload (KeyManifestBodyElement b) = enc_KeyManifestBody b"

definition encode :: "element \<Rightarrow> byte list" where
  "encode e =
     element_tag e # le_bytes 2 (of_nat (length (element_payload e)) :: 16 word) @ element_payload e"

definition dec_payload :: "byte \<Rightarrow> byte list \<Rightarrow> codec_error + element" where
  "dec_payload t p =
     (if t = 1 then and_then (dec_SE p) (\<lambda>(se, r). Inr (IBBElement se))
      else if t = 2 then and_then (dec_TXT p) (\<lambda>(x, r). Inr (TXTElement x))
      else if t = 3 then and_then (dec_KeySignature p) (\<lambda>(ks, r). Inr (SignatureElement ks))
      else if t = 4 then and_then (dec_KeyManifestBody p) (\<lambda>(b, r). Inr (KeyManifestBodyElement b))
      else Inl UnsupportedElementError)"

definition decode_element :: "byte list \<Rightarrow> codec_error + (element \<times> byte list)" where
  "decode_element bs =
     and_then (dec_word 1 bs) (\<lambda>(t, r1).
     and_then (dec_word 2 r1) (\<lambda>(n :: 16 word, r2).
       if length r2 < unat n then Inl TruncatedInputError
       else and_then (dec_payload t (take (unat n) r2)) (\<lambda>e. Inr (e, drop (unat n) r2))))"

definition decode :: "byte list \<Rightarrow> nat \<Rightarrow> codec_error + (element \<times> nat)" where
  "decode bs cursor =
     and_then (decode_element (drop cursor bs)) (\<lambda>(e, r).
       Inr (e, length (drop cursor bs) - length r))"

text \<open>
  Modelled from the spec: a manifest is a header (revision, the two SVN fields, the size
  of the data region in 4K pages) and an ordered sequence of elements (section 3).
\<close>

record ManifestHeader =
  mh_Revision :: "8 word"
  mh_SVN :: "8 word"
  mh_ACMSVN :: "8 word"
  mh_DataSize4K :: "16 word"

record Manifest =
  mf_header :: ManifestHeader
  mf_elements :: "element list"

definition enc_header :: "ManifestHeader \<Rightarrow> byte list" where
  "enc_header h =
     le_bytes 1 (mh_Revision h) @ le_bytes 1 (mh_SVN h) @ le_bytes 1 (mh_ACMSVN h)
     @ le_bytes 2 (mh_DataSize4K h)"

definition dec_header :: "byte list \<Rightarrow> codec_error + (ManifestHeader \<times> byte list)" where
  "dec_header bs =
     and_then (dec_word 1 bs) (\<lambda>(rv, r1).
     and_then (dec_word 1 r1) (\<lambda>(sv, r2).
     and_then (dec_word 1 r2) (\<lambda>(av, r3).
     and_then (dec_word 2 r3) (\<lambda>(sz, r4).
       Inr (\<lparr>mh_Revision = rv, mh_SVN = sv, mh_ACMSVN = av, mh_DataSize4K = sz\<rparr>, r4)))))"

text \<open>
  Modelled from the spec: the canonical order (section 3): a boot policy manifest is one
  or more IBB elements, at most one TXT element and the signature element; a key
  manifest is the key manifest body and the signature element.
\<close>

fun bpm_tail :: "element list \<Rightarrow> bool" where
  "bpm_tail [SignatureElement ks] = True"
| "bpm_tail [TXTElement t, SignatureElement ks] = True"
| "bpm_tail els = False"

fun bpm_order :: "element list \<Rightarrow> bool" where
  "bpm_order (IBBElement se # els) = (bpm_tail els \<or> bpm_order els)"
| "bpm_order els = False"

fun km_order :: "element list \<Rightarrow> bool" where
  "km_order [KeyManifestBodyElement b, SignatureElement ks] = True"
| "km_order els = False"

definition canonical_order :: "element list \<Rightarrow> bool" where
  "canonical_order els = (bpm_order els \<or> km_order els)"

text \<open>
  Modelled from the spec: \<open>assemble\<close> lays the header and the elements out in the
  canonical order and fails with \<^verbatim>\<open>InvalidManifestError\<close> on any other sequence
  (section 4.2, section 7). \<open>disassemble\<close> parses the header and then elements until the
  input is exhausted, and checks that exactly one signature element appears and that it
  is the last element.
\<close>

definition assemble :: "Manifest \<Rightarrow> codec_error + byte list" where
  "assemble m =
     (if canonical_order (mf_elements m)
      then Inr (enc_header (mf_header m) @ concat (map encode (mf_elements m)))
      else Inl InvalidManifestError)"

primrec dec_elements :: "nat \<Rightarrow> byte list \<Rightarrow> codec_error + element list" where
  "dec_elements 0 bs = (if bs = [] then Inr [] else Inl TruncatedInputError)"
| "dec_elements (Suc n) bs =
     (if bs = [] then Inr []
      else and_then (decode_element bs) (\<lambda>(e, r).
           and_then (dec_elements n r) (\<lambda>es. Inr (e # es))))"

primrec is_SignatureElement :: "element \<Rightarrow> bool" where
  "is_SignatureElement (IBBElement se) = False"
| "is_SignatureElement (TXTElement t) = False"
| "is_SignatureElement (SignatureElement ks) = True"
| "is_SignatureElement (KeyManifestBodyElement b) = False"

definition one_signature_last :: "element list \<Rightarrow> bool" where
  "one_signature_last els =
     (els \<noteq> [] \<and> is_SignatureElement (last els) \<and> \<not> list_ex is_SignatureElement (butlast els))"

definition disassemble :: "byte list \<Rightarrow> codec_error + Manifest" where
  "disassemble bs =
     and_then (dec_header bs) (\<lambda>(h, r).
     and_then (dec_elements (length r) r) (\<lambda>els.
       if one_signature_last els then Inr \<lparr>mf_header = h, mf_elements = els\<rparr>
       else Inl InvalidManifestError))"

text \<open>
  Modelled from the spec: a valid element is one whose lists and byte strings fit their
  length prefixes and whose encoding fits the length field of the element; an IBB
  element has at least one segment, and its stored digest count is the length of its
  digest list. A valid manifest is in canonical order, all its elements are valid, and
  the size field of a boot policy manifest is not zero (section 3).
\<close>

definition valid_HashStructure :: "HashStructure \<Rightarrow> bool" where
  "valid_HashStructure h = (length (HashBuffer h) < 65536)"

definition valid_HashList :: "HashList \<Rightarrow> bool" where
  "valid_HashList dl =
     (length (List_hl dl) < 65536 \<and> Size_hl dl = of_nat (length (List_hl dl))
      \<and> list_all valid_HashStructure (List_hl dl))"

primrec valid_fields :: "element \<Rightarrow> bool" where
  "valid_fields (IBBElement se) =
     (IBBSegments se \<noteq> [] \<and> length (IBBSegments se) < 65536 \<and> valid_HashList (DigestList se))"
| "valid_fields (TXTElement t) = True"
| "valid_fields (SignatureElement ks) =
     (length (KeyData (Key ks)) < 65536 \<and> length (SigData (Signature ks)) < 65536)"
| "valid_fields (KeyManifestBodyElement b) =
     (length (kb_Hash b) < 65536 \<and> list_all (\<lambda>h. valid_HashStructure (Digest h)) (kb_Hash b))"

definition valid_element :: "element \<Rightarrow> bool" where
  "valid_element e = (valid_fields e \<and> length (element_payload e) < 65536)"

definition valid_Manifest :: "Manifest \<Rightarrow> bool" where
  "valid_Manifest m =
     ((km_order (mf_elements m)
        \<or> (bpm_order (mf_elements m) \<and> mh_DataSize4K (mf_header m) \<noteq> 0))
      \<and> list_all valid_element (mf_elements m))"

text \<open>
  The scenario of section 8: a boot policy manifest with one IBB element (base
  \<^verbatim>\<open>0x1000\<close>, size \<^verbatim>\<open>0x2000\<close>, flags 0), no TXT element, and a signature element.
\<close>

definition demo_manifest :: Manifest where
  "demo_manifest =
     \<lparr>mf_header = \<lparr>mh_Revision = 1, mh_SVN = 2, mh_ACMSVN = 3, mh_DataSize4K = 4\<rparr>,
      mf_elements =
        [IBBElement \<lparr>PBETValue = 0, Flags_se = 0, IBBMCHBAR = 0, VTdBAR = 0, DMAProtBase0 = 0,
           DMAProtLimit0 = 0, DMAProtBase1 = 0, DMAProtLimit1 = 0, IBBEntryPoint = 0,
           DigestList = \<lparr>Size_hl = 1, List_hl = [\<lparr>HashAlg_hs = 0x0B, HashBuffer = [0xAA, 0xBB]\<rparr>]\<rparr>,
           IBBSegments = [\<lparr>Flags_seg = 0, Base = 0x1000, Size_seg = 0x2000\<rparr>]\<rparr>,
         SignatureElement \<lparr>Key = \<lparr>KeyAlg = 0x01, KeyData = [7]\<rparr>,
           Signature = \<lparr>HashAlg = 0x0B, SigData = [7, 6]\<rparr>\<rparr>]\<rparr>"

section \<open>Properties of NVReadAll\<close>

lemma NVReadAll_loop_collects:
  assumes "one_byte_reads rd conn index auth i k = Some (bs, conn1)"
    and "rd conn1 index (i + of_nat k) 1 auth = ((b, Some e), conn2)"
  shows "NVReadAll_loop rd conn index auth i ret = Some (Returns (ret @ bs), conn2)"
  using assms
proof (induction k arbitrary: conn i ret bs)
  case 0
  then show ?case
    by (subst NVReadAll_loop.simps) simp
next
  case (Suc k)
  from Suc.prems(1) obtain b0 tl conn' bs' where
    rd: "rd conn index i 1 auth = ((b0 # tl, None), conn')" and
    rest: "one_byte_reads rd conn' index auth (i + 1) k = Some (bs', conn1)" and
    bs: "bs = b0 # bs'"
    by (auto split: prod.splits list.splits option.splits)
  from Suc.prems(2) have fail: "rd conn1 index ((i + 1) + of_nat k) 1 auth = ((b, Some e), conn2)"
    by (simp add: add.commute add.left_commute)
  have "NVReadAll_loop rd conn' index auth (i + 1) (ret @ [b0]) = Some (Returns ((ret @ [b0]) @ bs'), conn2)"
    by (rule Suc.IH [OF rest fail])
  with rd bs show ?case
    by (subst NVReadAll_loop.simps) simp
qed

text \<open>
  Claim C9. \<^verbatim>\<open>NVReadAll\<close> never reports a failure: its result is a byte sequence with
  no error beside it. When the reads at the offsets \<open>0, ..., k - 1\<close> succeed and the read
  at offset \<open>k\<close> is the first that fails, with whatever error \<open>e\<close>, it returns exactly
  the \<open>k\<close> bytes read before, one per read; the error is dropped. For \<open>k = 0\<close> the very
  first read fails and the result is the empty sequence.
\<close>

theorem NVReadAll_returns_bytes_before_first_error:
  assumes "one_byte_reads rd conn index auth 0 k = Some (bs, conn1)"
    and "rd conn1 index (of_nat k) 1 auth = ((b, Some e), conn2)"
  shows "NVReadAll rd conn index auth = Some (Returns bs, conn2)"
  unfolding NVReadAll_def
  using NVReadAll_loop_collects [of rd conn index auth 0 k bs conn1 b e conn2 "[]"] assms
  by simp

lemma NVReadAll_first_read_fails:
  assumes "rd conn index 0 1 auth = ((b, Some e), conn2)"
  shows "NVReadAll rd conn index auth = Some (Returns [], conn2)"
  unfolding NVReadAll_def
  using assms by (subst NVReadAll_loop.simps) simp

theorem NVReadAll_returns_bytes_before_first_error_witness:
  "one_byte_reads nv_area_read [7, 8, 9] 1 [] 0 (Suc (Suc (Suc 0))) = Some ([7, 8, 9], [7, 8, 9])
   \<and> nv_area_read [7, 8, 9] 1 (of_nat (Suc (Suc (Suc 0)))) 1 [] = (([], Some (LibError ''offset out of range'')), [7, 8, 9])
   \<and> NVReadAll nv_area_read [7, 8, 9] 1 [] = Some (Returns [7, 8, 9], [7, 8, 9])"
proof -
  have reads: "one_byte_reads nv_area_read [7, 8, 9] 1 [] 0 (Suc (Suc (Suc 0))) = Some ([7, 8, 9], [7, 8, 9])"
    by (simp add: nv_area_read_def)
  have fails: "nv_area_read [7, 8, 9] 1 (of_nat (Suc (Suc (Suc 0)))) 1 []
      = (([], Some (LibError ''offset out of range'')), [7, 8, 9])"
    by (simp add: nv_area_read_def)
  show ?thesis
    using reads fails NVReadAll_returns_bytes_before_first_error [OF reads fails]
    by simp
qed

section \<open>Evaluating the small library\<close>

lemmas demo_simps = demo_lib_def demo_ReadFile_def demo_WriteFile_def demo_DecryptPrivKey_def
  demo_sign_def demo_Key_SetPubKey_def demo_KeySignature_bytes_def demo_WriteKM_def
  demo_km_ReadFrom_def demo_km_RehashRecursive_def demo_km_SetSignature_def demo_WriteBPM_def
  demo_bpm_ReadFrom_def demo_bpm_RehashRecursive_def demo_Signature_SetSignature_def
  zero_key_Manifest_def zero_bp_Manifest_def zero_KeySignature_def logged_def slice_upto_def slice_cap_def
  demo_files_def demo_world_def

section \<open>What a signing run does\<close>

text \<open>
  The runs of the two signing commands in which \<^verbatim>\<open>SetSignature\<close> is called: which
  steps succeeded before, which bytes the call was given, and how the record of calls
  begins.
\<close>

lemma signKMCmd_sign_signed:
  assumes "Signed k d \<in> set (calls (snd (signKMCmd_sign L s privkey kmRaw km0 w)))"
    and "Signed k d \<notin> set (calls w)"
  shows "\<exists>u rest.
           slice_upto kmRaw (km_KeyAndSignatureOffset L (km_RehashRecursive L km0)) = Returns u
         \<and> crypto_Signer privkey = Returns k
         \<and> d = elems u
         \<and> calls (snd (signKMCmd_sign L s privkey kmRaw km0 w)) = calls w @ Rehashed # Signed k d # rest"
  using assms unfolding signKMCmd_sign_def
  by (auto simp: Let_def logged_def split: prod.splits option.splits sum.splits go.splits)

lemma signKMCmd_Run_signed:
  assumes "Signed k d \<in> set (calls (snd (signKMCmd_Run L s w)))"
    and "Signed k d \<notin> set (calls w)"
  shows "\<exists>encKey privkey kmRaw km0.
           ReadFile L (skm_Key s) (files w) = (encKey, None)
         \<and> DecryptPrivKey L (elems encKey) (skm_Password s) = Inr privkey
         \<and> ReadFile L (skm_KmIn s) (files w) = (kmRaw, None)
         \<and> km_ReadFrom L (elems kmRaw) = (km0, None)
         \<and> signKMCmd_Run L s w = signKMCmd_sign L s privkey kmRaw km0 (logged (Parsed (elems kmRaw)) w)"
  using assms unfolding signKMCmd_Run_def
  by (auto simp: logged_def split: prod.splits option.splits sum.splits)

lemma signKMCmd_signed:
  assumes "Signed k d \<in> set (calls (snd (signKMCmd_Run L s w)))"
    and "Signed k d \<notin> set (calls w)"
  shows "\<exists>kmRaw km0 u rest.
           ReadFile L (skm_KmIn s) (files w) = (kmRaw, None)
         \<and> km_ReadFrom L (elems kmRaw) = (km0, None)
         \<and> slice_upto kmRaw (km_KeyAndSignatureOffset L (km_RehashRecursive L km0)) = Returns u
         \<and> d = elems u
         \<and> calls (snd (signKMCmd_Run L s w)) = calls w @ Parsed (elems kmRaw) # Rehashed # Signed k d # rest"
proof -
  from signKMCmd_Run_signed [OF assms] obtain privkey kmRaw km0 where
    rd: "ReadFile L (skm_KmIn s) (files w) = (kmRaw, None)" and
    ps: "km_ReadFrom L (elems kmRaw) = (km0, None)" and
    run: "signKMCmd_Run L s w = signKMCmd_sign L s privkey kmRaw km0 (logged (Parsed (elems kmRaw)) w)"
    by blast
  let ?w1 = "logged (Parsed (elems kmRaw)) w"
  from assms run have a: "Signed k d \<in> set (calls (snd (signKMCmd_sign L s privkey kmRaw km0 ?w1)))"
    by simp
  from assms(2) have b: "Signed k d \<notin> set (calls ?w1)"
    by (simp add: logged_def)
  from signKMCmd_sign_signed [OF a b] obtain u rest where
    "slice_upto kmRaw (km_KeyAndSignatureOffset L (km_RehashRecursive L km0)) = Returns u"
    "d = elems u"
    "calls (snd (signKMCmd_sign L s privkey kmRaw km0 ?w1)) = calls ?w1 @ Rehashed # Signed k d # rest"
    by blast
  with rd ps run show ?thesis
    by (simp add: logged_def)
qed

lemma signBPMCmd_sign_signed:
  assumes "Signed k d \<in> set (calls (snd (signBPMCmd_sign L s key bpm0 w)))"
    and "Signed k d \<notin> set (calls w)"
  shows "\<exists>kAs bpmRaw u rest.
           signBPMCmd_kAs L key = Some kAs
         \<and> WriteBPM L (bpm0\<lparr>PMSE := kAs\<rparr>) = Inr bpmRaw
         \<and> slice_upto bpmRaw (unat (KeySignatureOffset (BPMH (bpm_RehashRecursive L (bpm0\<lparr>PMSE := kAs\<rparr>))))) = Returns u
         \<and> crypto_Signer key = Returns k
         \<and> d = elems u
         \<and> calls (snd (signBPMCmd_sign L s key bpm0 w))
             = calls w @ SerializedBPM (bpm0\<lparr>PMSE := kAs\<rparr>) # Rehashed # Signed k d # rest"
  using assms unfolding signBPMCmd_sign_def
  by (auto simp: Let_def logged_def split: prod.splits option.splits sum.splits go.splits)

lemma signBPMCmd_Run_signed:
  assumes "Signed k d \<in> set (calls (snd (signBPMCmd_Run L s w)))"
    and "Signed k d \<notin> set (calls w)"
  shows "\<exists>encKey key bpmRaw0 bpm0 perr.
           ReadFile L (sbpm_Key s) (files w) = (encKey, None)
         \<and> DecryptPrivKey L (elems encKey) (sbpm_Password s) = Inr key
         \<and> ReadFile L (sbpm_BpmIn s) (files w) = (bpmRaw0, None)
         \<and> bpm_ReadFrom L (elems bpmRaw0) = (bpm0, perr)
         \<and> signBPMCmd_Run L s w = signBPMCmd_sign L s key bpm0 (logged (Parsed (elems bpmRaw0)) w)"
  using assms unfolding signBPMCmd_Run_def
  by (auto simp: logged_def split: prod.splits option.splits sum.splits if_splits)

lemma signBPMCmd_signed:
  assumes "Signed k d \<in> set (calls (snd (signBPMCmd_Run L s w)))"
    and "Signed k d \<notin> set (calls w)"
  shows "\<exists>bpmRaw0 bpm0 perr key kAs bpmRaw u rest.
           ReadFile L (sbpm_BpmIn s) (files w) = (bpmRaw0, None)
         \<and> bpm_ReadFrom L (elems bpmRaw0) = (bpm0, perr)
         \<and> signBPMCmd_kAs L key = Some kAs
         \<and> WriteBPM L (bpm0\<lparr>PMSE := kAs\<rparr>) = Inr bpmRaw
         \<and> slice_upto bpmRaw (unat (KeySignatureOffset (BPMH (bpm_RehashRecursive L (bpm0\<lparr>PMSE := kAs\<rparr>))))) = Returns u
         \<and> d = elems u
         \<and> calls (snd (signBPMCmd_Run L s w))
             = calls w @ Parsed (elems bpmRaw0) # SerializedBPM (bpm0\<lparr>PMSE := kAs\<rparr>) # Rehashed # Signed k d # rest"
proof -
  from signBPMCmd_Run_signed [OF assms] obtain key bpmRaw0 bpm0 perr where
    rd: "ReadFile L (sbpm_BpmIn s) (files w) = (bpmRaw0, None)" and
    ps: "bpm_ReadFrom L (elems bpmRaw0) = (bpm0, perr)" and
    run: "signBPMCmd_Run L s w = signBPMCmd_sign L s key bpm0 (logged (Parsed (elems bpmRaw0)) w)"
    by blast
  let ?w1 = "logged (Parsed (elems bpmRaw0)) w"
  from assms run have a: "Signed k d \<in> set (calls (snd (signBPMCmd_sign L s key bpm0 ?w1)))"
    by simp
  from assms(2) have b: "Signed k d \<notin> set (calls ?w1)"
    by (simp add: logged_def)
  from signBPMCmd_sign_signed [OF a b] obtain kAs bpmRaw u rest where
    "signBPMCmd_kAs L key = Some kAs"
    "WriteBPM L (bpm0\<lparr>PMSE := kAs\<rparr>) = Inr bpmRaw"
    "slice_upto bpmRaw (unat (KeySignatureOffset (BPMH (bpm_RehashRecursive L (bpm0\<lparr>PMSE := kAs\<rparr>))))) = Returns u"
    "d = elems u"
    "calls (snd (signBPMCmd_sign L s key bpm0 ?w1))
       = calls ?w1 @ SerializedBPM (bpm0\<lparr>PMSE := kAs\<rparr>) # Rehashed # Signed k d # rest"
    by blast
  with rd ps run show ?thesis
    by (simp add: logged_def) blast
qed


lemma demo_signKM_calls:
  "calls (snd (signKMCmd_Run demo_lib demo_signKM demo_world))
     = [Parsed [1, 2, 3, 0, 1, 9, 0], Rehashed, Signed (RSAPrivateKey 7) [1, 2, 3, 0],
        SerializedKM \<lparr>Revision = 1, KMSVN = 2, KMID = 3, PubKeyHashAlg = 0, Hash = [],
          KeyManifestSignatureOffset = 4,
          KeyAndSignature = \<lparr>Key = \<lparr>KeyAlg = 1, KeyData = [9]\<rparr>,
                              Signature = \<lparr>HashAlg = 11, SigData = [7, 6]\<rparr>\<rparr>\<rparr>,
        Wrote ''km.signed'' [1, 2, 3, 4, 1, 9, 11, 7, 6]]"
  by (simp add: signKMCmd_Run_def signKMCmd_sign_def demo_signKM_def demo_simps Let_def)

lemma demo_signBPM_calls:
  "calls (snd (signBPMCmd_Run demo_lib demo_signBPM demo_world))
     = [Parsed [1, 2, 3, 0, 1, 9, 0],
        SerializedBPM \<lparr>BPMH = \<lparr>BPMRevision = 1, BPMSVN = 2, ACMSVNAuth = 3, NEMDataStack = 0,
            KeySignatureOffset = 0\<rparr>, SE = [], TXTE = None,
          PMSE = \<lparr>Key = \<lparr>KeyAlg = 1, KeyData = [7]\<rparr>, Signature = \<lparr>HashAlg = 0, SigData = []\<rparr>\<rparr>\<rparr>,
        Rehashed, Signed (RSAPrivateKey 7) [1, 2, 3, 0],
        SerializedBPM \<lparr>BPMH = \<lparr>BPMRevision = 1, BPMSVN = 2, ACMSVNAuth = 3, NEMDataStack = 0,
            KeySignatureOffset = 4\<rparr>, SE = [], TXTE = None,
          PMSE = \<lparr>Key = \<lparr>KeyAlg = 1, KeyData = [7]\<rparr>, Signature = \<lparr>HashAlg = 11, SigData = [7, 6]\<rparr>\<rparr>\<rparr>,
        Wrote ''bpm.signed'' [1, 2, 3, 4, 1, 7, 11, 7, 6]]"
  by (simp add: signBPMCmd_Run_def signBPMCmd_sign_def signBPMCmd_kAs_def demo_signBPM_def demo_simps Let_def)

lemma demo_signBPM_cut_calls:
  "calls (snd (signBPMCmd_Run demo_lib (demo_signBPM\<lparr>sbpm_BpmIn := ''bpm.cut''\<rparr>) demo_world))
     = [Parsed [1, 2, 3, 4],
        SerializedBPM \<lparr>BPMH = \<lparr>BPMRevision = 1, BPMSVN = 2, ACMSVNAuth = 3, NEMDataStack = 0,
            KeySignatureOffset = 4\<rparr>, SE = [], TXTE = None,
          PMSE = \<lparr>Key = \<lparr>KeyAlg = 1, KeyData = [7]\<rparr>, Signature = \<lparr>HashAlg = 0, SigData = []\<rparr>\<rparr>\<rparr>,
        Rehashed, Signed (RSAPrivateKey 7) [1, 2, 3, 4],
        SerializedBPM \<lparr>BPMH = \<lparr>BPMRevision = 1, BPMSVN = 2, ACMSVNAuth = 3, NEMDataStack = 0,
            KeySignatureOffset = 4\<rparr>, SE = [], TXTE = None,
          PMSE = \<lparr>Key = \<lparr>KeyAlg = 1, KeyData = [7]\<rparr>, Signature = \<lparr>HashAlg = 11, SigData = [7, 10]\<rparr>\<rparr>\<rparr>,
        Wrote ''bpm.signed'' [1, 2, 3, 4, 1, 7, 11, 7, 10]]"
  by (simp add: signBPMCmd_Run_def signBPMCmd_sign_def signBPMCmd_kAs_def demo_signBPM_def demo_simps Let_def)

lemma demo_signBPM_ec_calls:
  "calls (snd (signBPMCmd_Run demo_lib (demo_signBPM\<lparr>sbpm_Key := ''ec.key''\<rparr>) demo_world))
     = [Parsed [1, 2, 3, 0, 1, 9, 0],
        SerializedBPM \<lparr>BPMH = \<lparr>BPMRevision = 1, BPMSVN = 2, ACMSVNAuth = 3, NEMDataStack = 0,
            KeySignatureOffset = 0\<rparr>, SE = [], TXTE = None,
          PMSE = \<lparr>Key = \<lparr>KeyAlg = 0x23, KeyData = [7]\<rparr>, Signature = \<lparr>HashAlg = 0, SigData = []\<rparr>\<rparr>\<rparr>,
        Rehashed, Signed (ECDSAPrivateKey 7) [1, 2, 3, 0],
        SerializedBPM \<lparr>BPMH = \<lparr>BPMRevision = 1, BPMSVN = 2, ACMSVNAuth = 3, NEMDataStack = 0,
            KeySignatureOffset = 4\<rparr>, SE = [], TXTE = None,
          PMSE = \<lparr>Key = \<lparr>KeyAlg = 0x23, KeyData = [7]\<rparr>, Signature = \<lparr>HashAlg = 11, SigData = [7, 6]\<rparr>\<rparr>\<rparr>,
        Wrote ''bpm.signed'' [1, 2, 3, 4, 0x23, 7, 11, 7, 6]]"
  by (simp add: signBPMCmd_Run_def signBPMCmd_sign_def signBPMCmd_kAs_def demo_signBPM_def demo_simps Let_def)

lemma demo_signBPM_ec_result:
  "fst (signBPMCmd_Run demo_lib (demo_signBPM\<lparr>sbpm_Key := ''ec.key''\<rparr>) demo_world) = Returns None"
  by (simp add: signBPMCmd_Run_def signBPMCmd_sign_def signBPMCmd_kAs_def demo_signBPM_def demo_simps Let_def)



section \<open>The signed bytes (C1)\<close>




section \<open>The order of serialising, rehashing and signing (C2)\<close>

text \<open>
  Claim C2 says that the digests are recomputed first, the manifest is serialised after
  that, and the signature is computed over a prefix of that later serialisation. The
  commands do it in another order. At the concrete input below \<^verbatim>\<open>WriteBPM\<close> comes before
  \<^verbatim>\<open>RehashRecursive\<close>, the signed bytes are a prefix of the serialisation made before
  the rehash, and they are a prefix neither of the serialisation of the rehashed
  manifest nor of the bytes written in the end.
\<close>

theorem signBPM_signs_serialisation_made_before_rehash_counterexample:
  "calls (snd (signBPMCmd_Run demo_lib demo_signBPM demo_world))
     = [Parsed [1, 2, 3, 0, 1, 9, 0],
        SerializedBPM \<lparr>BPMH = \<lparr>BPMRevision = 1, BPMSVN = 2, ACMSVNAuth = 3, NEMDataStack = 0,
            KeySignatureOffset = 0\<rparr>, SE = [], TXTE = None,
          PMSE = \<lparr>Key = \<lparr>KeyAlg = 1, KeyData = [7]\<rparr>, Signature = \<lparr>HashAlg = 0, SigData = []\<rparr>\<rparr>\<rparr>,
        Rehashed, Signed (RSAPrivateKey 7) [1, 2, 3, 0],
        SerializedBPM \<lparr>BPMH = \<lparr>BPMRevision = 1, BPMSVN = 2, ACMSVNAuth = 3, NEMDataStack = 0,
            KeySignatureOffset = 4\<rparr>, SE = [], TXTE = None,
          PMSE = \<lparr>Key = \<lparr>KeyAlg = 1, KeyData = [7]\<rparr>, Signature = \<lparr>HashAlg = 11, SigData = [7, 6]\<rparr>\<rparr>\<rparr>,
        Wrote ''bpm.signed'' [1, 2, 3, 4, 1, 7, 11, 7, 6]]
   \<and> WriteBPM demo_lib (bpm_RehashRecursive demo_lib
        \<lparr>BPMH = \<lparr>BPMRevision = 1, BPMSVN = 2, ACMSVNAuth = 3, NEMDataStack = 0,
            KeySignatureOffset = 0\<rparr>, SE = [], TXTE = None,
          PMSE = \<lparr>Key = \<lparr>KeyAlg = 1, KeyData = [7]\<rparr>, Signature = \<lparr>HashAlg = 0, SigData = []\<rparr>\<rparr>\<rparr>)
       = Inr \<lparr>elems = [1, 2, 3, 4, 1, 7, 0], spare = []\<rparr>
   \<and> \<not> prefix [1, 2, 3, 0] [1, 2, 3, 4, 1, 7, 0 :: byte]
   \<and> \<not> prefix [1, 2, 3, 0] [1, 2, 3, 4, 1, 7, 11, 7, 6 :: byte]"
  by (simp add: demo_signBPM_calls) (simp add: demo_simps)

text \<open>
  Claim C2, amended. In every signing run the bytes that get signed are serialised
  before \<^verbatim>\<open>RehashRecursive\<close> runs: for a boot policy manifest the record of calls is
  parse, serialise, rehash, sign, and the signed bytes are the serialisation made before
  the rehash, cut at the offset the rehashed manifest gives; for a key manifest it is
  parse, rehash, sign, and the signed bytes are the raw input cut at the offset of the
  rehashed manifest.
\<close>

theorem signing_order_is_serialise_rehash_sign:
  assumes "calls w = []"
  shows "(Signed k d \<in> set (calls (snd (signBPMCmd_Run L sbpm w))) \<longrightarrow>
            (\<exists>bpmRaw0 bpm1 bpmRaw u rest.
                calls (snd (signBPMCmd_Run L sbpm w))
                  = Parsed bpmRaw0 # SerializedBPM bpm1 # Rehashed # Signed k d # rest
              \<and> WriteBPM L bpm1 = Inr bpmRaw
              \<and> slice_upto bpmRaw (unat (KeySignatureOffset (BPMH (bpm_RehashRecursive L bpm1)))) = Returns u
              \<and> d = elems u))
       \<and> (Signed k d \<in> set (calls (snd (signKMCmd_Run L skm w))) \<longrightarrow>
            (\<exists>kmRaw km0 u rest.
                calls (snd (signKMCmd_Run L skm w))
                  = Parsed (elems kmRaw) # Rehashed # Signed k d # rest
              \<and> ReadFile L (skm_KmIn skm) (files w) = (kmRaw, None)
              \<and> km_ReadFrom L (elems kmRaw) = (km0, None)
              \<and> slice_upto kmRaw (km_KeyAndSignatureOffset L (km_RehashRecursive L km0)) = Returns u
              \<and> d = elems u))"
proof (intro conjI impI)
  assume sg: "Signed k d \<in> set (calls (snd (signBPMCmd_Run L sbpm w)))"
  from assms have nw: "Signed k d \<notin> set (calls w)" by simp
  from signBPMCmd_signed [OF sg nw] assms
  show "\<exists>bpmRaw0 bpm1 bpmRaw u rest.
          calls (snd (signBPMCmd_Run L sbpm w))
            = Parsed bpmRaw0 # SerializedBPM bpm1 # Rehashed # Signed k d # rest
        \<and> WriteBPM L bpm1 = Inr bpmRaw
        \<and> slice_upto bpmRaw (unat (KeySignatureOffset (BPMH (bpm_RehashRecursive L bpm1)))) = Returns u
        \<and> d = elems u"
    by auto
next
  assume sg: "Signed k d \<in> set (calls (snd (signKMCmd_Run L skm w)))"
  from assms have nw: "Signed k d \<notin> set (calls w)" by simp
  from signKMCmd_signed [OF sg nw] assms
  show "\<exists>kmRaw km0 u rest.
          calls (snd (signKMCmd_Run L skm w))
            = Parsed (elems kmRaw) # Rehashed # Signed k d # rest
        \<and> ReadFile L (skm_KmIn skm) (files w) = (kmRaw, None)
        \<and> km_ReadFrom L (elems kmRaw) = (km0, None)
        \<and> slice_upto kmRaw (km_KeyAndSignatureOffset L (km_RehashRecursive L km0)) = Returns u
        \<and> d = elems u"
    by auto
qed

theorem signing_order_is_serialise_rehash_sign_witness:
  "calls demo_world = []
   \<and> Signed (RSAPrivateKey 7) [1, 2, 3, 0] \<in> set (calls (snd (signBPMCmd_Run demo_lib demo_signBPM demo_world)))
   \<and> Signed (RSAPrivateKey 7) [1, 2, 3, 0] \<in> set (calls (snd (signKMCmd_Run demo_lib demo_signKM demo_world)))
   \<and> take 4 (calls (snd (signKMCmd_Run demo_lib demo_signKM demo_world)))
       = [Parsed [1, 2, 3, 0, 1, 9, 0], Rehashed, Signed (RSAPrivateKey 7) [1, 2, 3, 0],
          SerializedKM \<lparr>Revision = 1, KMSVN = 2, KMID = 3, PubKeyHashAlg = 0, Hash = [],
            KeyManifestSignatureOffset = 4,
            KeyAndSignature = \<lparr>Key = \<lparr>KeyAlg = 1, KeyData = [9]\<rparr>,
                                Signature = \<lparr>HashAlg = 11, SigData = [7, 6]\<rparr>\<rparr>\<rparr>]"
  using signing_order_is_serialise_rehash_sign
    [of demo_world "RSAPrivateKey 7" "[1, 2, 3, 0]" demo_lib demo_signBPM demo_signKM]
  by (simp add: demo_signKM_calls demo_signBPM_calls) (simp add: demo_world_def)

section \<open>Parse errors of the signing commands (C10)\<close>

text \<open>
  Claim C10. The signing command for a boot policy manifest treats a parse error that
  is \<^verbatim>\<open>io.EOF\<close> as success: it goes on to lines 499 to 527 with the manifest as far as
  it was parsed, exactly as when there is no error; any other parse error is returned.
  The signing command for a key manifest returns every parse error, \<^verbatim>\<open>io.EOF\<close>
  included, and nothing is rehashed, signed or written.
\<close>

theorem sign_commands_on_parse_error:
  "(ReadFile L (sbpm_Key sb) (files w) = (encKey, None)
      \<and> DecryptPrivKey L (elems encKey) (sbpm_Password sb) = Inr key
      \<and> ReadFile L (sbpm_BpmIn sb) (files w) = (bpmRaw, None)
      \<and> bpm_ReadFrom L (elems bpmRaw) = (bpm0, perr)
    \<longrightarrow> signBPMCmd_Run L sb w =
          (case perr of
             None \<Rightarrow> signBPMCmd_sign L sb key bpm0 (logged (Parsed (elems bpmRaw)) w)
           | Some e \<Rightarrow>
               if errors_Is_EOF e
               then signBPMCmd_sign L sb key bpm0 (logged (Parsed (elems bpmRaw)) w)
               else (Returns (Some (Lib e)), logged (Parsed (elems bpmRaw)) w)))
   \<and> (ReadFile L (skm_Key sk) (files w) = (encKey', None)
      \<and> DecryptPrivKey L (elems encKey') (skm_Password sk) = Inr privkey
      \<and> ReadFile L (skm_KmIn sk) (files w) = (kmRaw, None)
      \<and> km_ReadFrom L (elems kmRaw) = (km0, Some e')
    \<longrightarrow> signKMCmd_Run L sk w = (Returns (Some (Lib e')), logged (Parsed (elems kmRaw)) w))"
  by (auto simp: signBPMCmd_Run_def signKMCmd_Run_def split: option.splits)

theorem sign_commands_on_parse_error_witness:
  "bpm_ReadFrom demo_lib [1, 2, 3, 4]
     = (\<lparr>BPMH = \<lparr>BPMRevision = 1, BPMSVN = 2, ACMSVNAuth = 3, NEMDataStack = 0,
          KeySignatureOffset = 4\<rparr>, SE = [], TXTE = None, PMSE = zero_KeySignature\<rparr>, Some EOF)
   \<and> signBPMCmd_Run demo_lib (demo_signBPM\<lparr>sbpm_BpmIn := ''bpm.cut''\<rparr>) demo_world
       = signBPMCmd_sign demo_lib (demo_signBPM\<lparr>sbpm_BpmIn := ''bpm.cut''\<rparr>) (RSAPrivateKey 7)
           \<lparr>BPMH = \<lparr>BPMRevision = 1, BPMSVN = 2, ACMSVNAuth = 3, NEMDataStack = 0,
              KeySignatureOffset = 4\<rparr>, SE = [], TXTE = None, PMSE = zero_KeySignature\<rparr>
           (logged (Parsed [1, 2, 3, 4]) demo_world)
   \<and> Signed (RSAPrivateKey 7) [1, 2, 3, 4]
       \<in> set (calls (snd (signBPMCmd_Run demo_lib (demo_signBPM\<lparr>sbpm_BpmIn := ''bpm.cut''\<rparr>) demo_world)))
   \<and> km_ReadFrom demo_lib [1, 2, 3, 4] = (zero_key_Manifest, Some EOF)
   \<and> signKMCmd_Run demo_lib (demo_signKM\<lparr>skm_KmIn := ''km.cut''\<rparr>) demo_world
       = (Returns (Some (Lib EOF)), logged (Parsed [1, 2, 3, 4]) demo_world)"
proof -
  let ?sb = "demo_signBPM\<lparr>sbpm_BpmIn := ''bpm.cut''\<rparr>"
  let ?sk = "demo_signKM\<lparr>skm_KmIn := ''km.cut''\<rparr>"
  let ?bpm0 = "\<lparr>BPMH = \<lparr>BPMRevision = 1, BPMSVN = 2, ACMSVNAuth = 3, NEMDataStack = 0,
          KeySignatureOffset = 4\<rparr>, SE = [], TXTE = None, PMSE = zero_KeySignature\<rparr>"
  have b: "ReadFile demo_lib (sbpm_Key ?sb) (files demo_world) = (\<lparr>elems = [1, 7], spare = []\<rparr>, None)
      \<and> DecryptPrivKey demo_lib (elems \<lparr>elems = [1, 7], spare = []\<rparr>) (sbpm_Password ?sb) = Inr (RSAPrivateKey 7)
      \<and> ReadFile demo_lib (sbpm_BpmIn ?sb) (files demo_world) = (\<lparr>elems = [1, 2, 3, 4], spare = []\<rparr>, None)
      \<and> bpm_ReadFrom demo_lib (elems \<lparr>elems = [1, 2, 3, 4], spare = []\<rparr>) = (?bpm0, Some EOF)"
    by (simp add: demo_signBPM_def demo_lib_def demo_ReadFile_def demo_DecryptPrivKey_def
        demo_bpm_ReadFrom_def demo_files_def demo_world_def zero_bp_Manifest_def Let_def)
  have k: "ReadFile demo_lib (skm_Key ?sk) (files demo_world) = (\<lparr>elems = [1, 7], spare = []\<rparr>, None)
      \<and> DecryptPrivKey demo_lib (elems \<lparr>elems = [1, 7], spare = []\<rparr>) (skm_Password ?sk) = Inr (RSAPrivateKey 7)
      \<and> ReadFile demo_lib (skm_KmIn ?sk) (files demo_world) = (\<lparr>elems = [1, 2, 3, 4], spare = []\<rparr>, None)
      \<and> km_ReadFrom demo_lib (elems \<lparr>elems = [1, 2, 3, 4], spare = []\<rparr>) = (zero_key_Manifest, Some EOF)"
    by (simp add: demo_signKM_def demo_lib_def demo_ReadFile_def demo_DecryptPrivKey_def
        demo_km_ReadFrom_def demo_files_def demo_world_def)
  from sign_commands_on_parse_error
    [of demo_lib ?sb demo_world "\<lparr>elems = [1, 7], spare = []\<rparr>" "RSAPrivateKey 7"
        "\<lparr>elems = [1, 2, 3, 4], spare = []\<rparr>" ?bpm0 "Some EOF"
        ?sk "\<lparr>elems = [1, 7], spare = []\<rparr>" "RSAPrivateKey 7"
        "\<lparr>elems = [1, 2, 3, 4], spare = []\<rparr>" zero_key_Manifest EOF] b k
  have "signBPMCmd_Run demo_lib ?sb demo_world
          = signBPMCmd_sign demo_lib ?sb (RSAPrivateKey 7) ?bpm0 (logged (Parsed [1, 2, 3, 4]) demo_world)"
    and "signKMCmd_Run demo_lib ?sk demo_world
          = (Returns (Some (Lib EOF)), logged (Parsed [1, 2, 3, 4]) demo_world)"
    by simp_all
  moreover have "Signed (RSAPrivateKey 7) [1, 2, 3, 4]
       \<in> set (calls (snd (signBPMCmd_Run demo_lib ?sb demo_world)))"
    by (simp add: demo_signBPM_cut_calls)
  ultimately show ?thesis using b k by simp
qed

section \<open>The key descriptor written when signing (C5)\<close>

lemma signBPMCmd_sign_serialized:
  assumes "SerializedBPM m \<in> set (calls (snd (signBPMCmd_sign L s key bpm0 w)))"
    and "SerializedBPM m \<notin> set (calls w)"
  shows "\<exists>kAs. signBPMCmd_kAs L key = Some kAs
           \<and> (m = bpm0\<lparr>PMSE := kAs\<rparr>
               \<or> (\<exists>sg. m = (bpm_RehashRecursive L (bpm0\<lparr>PMSE := kAs\<rparr>))
                            \<lparr>PMSE := (PMSE (bpm_RehashRecursive L (bpm0\<lparr>PMSE := kAs\<rparr>)))\<lparr>Signature := sg\<rparr>\<rparr>))"
  using assms unfolding signBPMCmd_sign_def
  by (auto simp: Let_def logged_def split: prod.splits option.splits sum.splits go.splits)

lemma signBPMCmd_sign_ignores_PMSE:
  "signBPMCmd_sign L s key (bpm0\<lparr>PMSE := p\<rparr>) w = signBPMCmd_sign L s key bpm0 w"
  by (cases "signBPMCmd_kAs L key") (simp_all add: signBPMCmd_sign_def)

text \<open>
  Claim C5 says that a key whose kind does not match the public key bound earlier
  fails with \<^verbatim>\<open>KeyAlgorithmMismatchError\<close>. At the concrete input below the manifest
  read carries an RSA key descriptor, the private key is an ECDSA key, and the command
  succeeds and writes a manifest with an ECDSA descriptor.
\<close>

theorem signBPM_key_kind_mismatch_counterexample:
  "KeyAlg (Key (PMSE (fst (bpm_ReadFrom demo_lib [1, 2, 3, 0, 1, 9, 0])))) = 0x01
   \<and> demo_files ''bpm.bin'' = Some [1, 2, 3, 0, 1, 9, 0]
   \<and> demo_files ''ec.key'' = Some [2, 7]
   \<and> DecryptPrivKey demo_lib [2, 7] ''secret'' = Inr (ECDSAPrivateKey 7)
   \<and> fst (signBPMCmd_Run demo_lib (demo_signBPM\<lparr>sbpm_Key := ''ec.key''\<rparr>) demo_world) = Returns None
   \<and> Wrote ''bpm.signed'' [1, 2, 3, 4, 0x23, 7, 11, 7, 6]
       \<in> set (calls (snd (signBPMCmd_Run demo_lib (demo_signBPM\<lparr>sbpm_Key := ''ec.key''\<rparr>) demo_world)))"
  by (simp add: demo_signBPM_ec_calls demo_signBPM_ec_result) (simp add: demo_simps)

text \<open>
  Claim C5, amended. When a boot policy manifest is signed, a key that is neither an
  RSA nor an ECDSA key is rejected with the error \<^verbatim>\<open>Invalid key type\<close> before anything
  is serialised, signed or written; for an RSA or ECDSA key the signature element is a
  new one whose key descriptor is set from the public half of that key, and every
  manifest the command serialises carries it (the second time after the rehash, with the
  signature set); the element found in the input, and with it the key bound earlier,
  is replaced without being compared: the run does not depend on it.
\<close>

theorem signBPM_binds_key_descriptor_from_private_key:
  "(signBPMCmd_kAs L key = None
      \<longrightarrow> signBPMCmd_sign L s key bpm0 w = (Returns (Some (Errorf ''Invalid key type'')), w))
   \<and> (signBPMCmd_kAs L key = None) = ((\<forall>n. key \<noteq> RSAPrivateKey n) \<and> (\<forall>n. key \<noteq> ECDSAPrivateKey n))
   \<and> signBPMCmd_kAs L (RSAPrivateKey n)
       = Some ((NewSignature L)\<lparr>Key := fst (Key_SetPubKey L (RSAPublicKey n) (Key (NewSignature L)))\<rparr>)
   \<and> signBPMCmd_kAs L (ECDSAPrivateKey n)
       = Some ((NewSignature L)\<lparr>Key := fst (Key_SetPubKey L (ECDSAPublicKey n) (Key (NewSignature L)))\<rparr>)
   \<and> (SerializedBPM m \<in> set (calls (snd (signBPMCmd_sign L s key bpm0 w)))
        \<and> SerializedBPM m \<notin> set (calls w)
      \<longrightarrow> (\<exists>kAs. signBPMCmd_kAs L key = Some kAs
             \<and> (m = bpm0\<lparr>PMSE := kAs\<rparr>
                 \<or> (\<exists>sg. m = (bpm_RehashRecursive L (bpm0\<lparr>PMSE := kAs\<rparr>))
                              \<lparr>PMSE := (PMSE (bpm_RehashRecursive L (bpm0\<lparr>PMSE := kAs\<rparr>)))\<lparr>Signature := sg\<rparr>\<rparr>))))
   \<and> signBPMCmd_sign L s key (bpm0\<lparr>PMSE := p\<rparr>) w = signBPMCmd_sign L s key bpm0 w"
proof (intro conjI impI)
  assume "signBPMCmd_kAs L key = None"
  then show "signBPMCmd_sign L s key bpm0 w = (Returns (Some (Errorf ''Invalid key type'')), w)"
    by (simp add: signBPMCmd_sign_def)
next
  show "(signBPMCmd_kAs L key = None) = ((\<forall>n. key \<noteq> RSAPrivateKey n) \<and> (\<forall>n. key \<noteq> ECDSAPrivateKey n))"
    by (cases key) (simp_all add: signBPMCmd_kAs_def)
next
  show "signBPMCmd_kAs L (RSAPrivateKey n)
       = Some ((NewSignature L)\<lparr>Key := fst (Key_SetPubKey L (RSAPublicKey n) (Key (NewSignature L)))\<rparr>)"
    by (simp add: signBPMCmd_kAs_def)
next
  show "signBPMCmd_kAs L (ECDSAPrivateKey n)
       = Some ((NewSignature L)\<lparr>Key := fst (Key_SetPubKey L (ECDSAPublicKey n) (Key (NewSignature L)))\<rparr>)"
    by (simp add: signBPMCmd_kAs_def)
next
  assume "SerializedBPM m \<in> set (calls (snd (signBPMCmd_sign L s key bpm0 w)))
        \<and> SerializedBPM m \<notin> set (calls w)"
  then show "\<exists>kAs. signBPMCmd_kAs L key = Some kAs
             \<and> (m = bpm0\<lparr>PMSE := kAs\<rparr>
                 \<or> (\<exists>sg. m = (bpm_RehashRecursive L (bpm0\<lparr>PMSE := kAs\<rparr>))
                              \<lparr>PMSE := (PMSE (bpm_RehashRecursive L (bpm0\<lparr>PMSE := kAs\<rparr>)))\<lparr>Signature := sg\<rparr>\<rparr>))"
    using signBPMCmd_sign_serialized [of m L s key bpm0 w] by blast
next
  show "signBPMCmd_sign L s key (bpm0\<lparr>PMSE := p\<rparr>) w = signBPMCmd_sign L s key bpm0 w"
    by (rule signBPMCmd_sign_ignores_PMSE)
qed

theorem signBPM_binds_key_descriptor_from_private_key_witness:
  "signBPMCmd_kAs demo_lib (OtherSigner 7) = None
   \<and> signBPMCmd_sign demo_lib demo_signBPM (OtherSigner 7) zero_bp_Manifest demo_world
       = (Returns (Some (Errorf ''Invalid key type'')), demo_world)
   \<and> signBPMCmd_kAs demo_lib (ECDSAPrivateKey 7)
       = Some \<lparr>Key = \<lparr>KeyAlg = 0x23, KeyData = [7]\<rparr>, Signature = \<lparr>HashAlg = 0, SigData = []\<rparr>\<rparr>
   \<and> SerializedBPM (zero_bp_Manifest\<lparr>PMSE := \<lparr>Key = \<lparr>KeyAlg = 0x23, KeyData = [7]\<rparr>,
          Signature = \<lparr>HashAlg = 0, SigData = []\<rparr>\<rparr>\<rparr>)
       \<in> set (calls (snd (signBPMCmd_sign demo_lib demo_signBPM (ECDSAPrivateKey 7) zero_bp_Manifest demo_world)))
   \<and> SerializedBPM (zero_bp_Manifest\<lparr>PMSE := \<lparr>Key = \<lparr>KeyAlg = 0x23, KeyData = [7]\<rparr>,
          Signature = \<lparr>HashAlg = 0, SigData = []\<rparr>\<rparr>\<rparr>) \<notin> set (calls demo_world)"
  using signBPM_binds_key_descriptor_from_private_key
    [of demo_lib "OtherSigner 7" demo_signBPM zero_bp_Manifest demo_world 7
        "zero_bp_Manifest\<lparr>PMSE := \<lparr>Key = \<lparr>KeyAlg = 0x23, KeyData = [7]\<rparr>,
          Signature = \<lparr>HashAlg = 0, SigData = []\<rparr>\<rparr>\<rparr>" zero_KeySignature]
  by (simp add: signBPMCmd_sign_def signBPMCmd_kAs_def demo_signBPM_def demo_simps Let_def)

section \<open>Cutting the signature off (C3)\<close>

lemma cut_reaches_into_spare_bytes:
  "gkm_Cut g \<Longrightarrow> length (elems bKM) < unat (KeyManifestSignatureOffset (KeyManifest options))
     \<Longrightarrow> unat (KeyManifestSignatureOffset (KeyManifest options)) \<le> slice_cap bKM
     \<Longrightarrow> calls (snd (generateKMCmd_cut_and_write L g options bKM w))
           = calls w @ [Wrote (gkm_KM g) (elems bKM @
               take (unat (KeyManifestSignatureOffset (KeyManifest options)) - length (elems bKM)) (spare bKM))]"
  by (auto simp: generateKMCmd_cut_and_write_def slice_upto_def
      slice_cap_def logged_def Let_def split: prod.splits option.splits)






section \<open>The algorithm tags of a generated manifest (C6)\<close>





section \<open>Stitching (C4, C8)\<close>

text \<open>
  Claim C4. The stitch command fails with \<^verbatim>\<open>NoPayloadError\<close> if and only if all three
  payloads are empty; when at least one is not, it goes past the check and calls
  \<^verbatim>\<open>StitchFITEntries\<close>.
\<close>

theorem stitch_NoPayloadError_iff_payloads_empty:
  "(fst (stitchingCmd_Run L s w) = Returns (Some NoPayloadError)) = payloads_empty L s w
   \<and> calls (snd (stitchingCmd_Run L s w))
       = (if payloads_empty L s w then calls w else calls w @ [Stitched])"
  by (auto simp: stitchingCmd_Run_def NoPayloadError_def payloads_empty_def Let_def logged_def
      split: prod.splits option.splits)

lemma demo_StitchFITEntries_no_FIT:
  assumes "f bios = Some img" and "\<not> has_FIT_signature img"
  shows "demo_StitchFITEntries bios acm bpm km f = (Some FITNotFoundError, f)"
  using assms by (simp add: demo_StitchFITEntries_def)

lemma demo_lib_stitcher:
  "demo_lib\<lparr>StitchFITEntries := demo_StitchFITEntries\<rparr> = demo_lib"
  by (simp add: demo_lib_def)

text \<open>
  Claim C8 says that for every BIOS image without a FIT signature the stitch operation
  returns \<^verbatim>\<open>FITNotFoundError\<close>. With all three payloads empty it returns
  \<^verbatim>\<open>NoPayloadError\<close> before the image is looked at.
\<close>

theorem stitch_no_FIT_no_payload_counterexample:
  "demo_files ''bios.bin'' = Some [0, 0, 0, 0]
   \<and> \<not> has_FIT_signature [0, 0, 0, 0]
   \<and> fst (stitchingCmd_Run demo_lib (demo_stitch\<lparr>st_KM := ''none''\<rparr>) demo_world)
       = Returns (Some NoPayloadError)
   \<and> fst (stitchingCmd_Run demo_lib (demo_stitch\<lparr>st_KM := ''none''\<rparr>) demo_world)
       \<noteq> Returns (Some (Lib FITNotFoundError))"
  by (simp add: stitchingCmd_Run_def demo_stitch_def demo_simps NoPayloadError_def FIT_signature_def)

text \<open>
  Claim C8, amended. For every BIOS image in which no FIT signature can be located,
  when at least one of the three payloads is not empty, the stitch command returns
  \<^verbatim>\<open>FITNotFoundError\<close>, and the image, as every other file, is byte for byte
  unchanged; with all three payloads empty it returns \<^verbatim>\<open>NoPayloadError\<close>, and the
  image is unchanged as well. The command is run with any library whose
  \<^verbatim>\<open>StitchFITEntries\<close> is the stitcher of section 4.6.
\<close>

theorem stitch_image_without_FIT_signature:
  assumes "files w (st_BIOS s) = Some img" and "\<not> has_FIT_signature img"
  shows "(\<not> payloads_empty L s w \<longrightarrow>
            fst (stitchingCmd_Run (L\<lparr>StitchFITEntries := demo_StitchFITEntries\<rparr>) s w)
              = Returns (Some (Lib FITNotFoundError)))
       \<and> (payloads_empty L s w \<longrightarrow>
            fst (stitchingCmd_Run (L\<lparr>StitchFITEntries := demo_StitchFITEntries\<rparr>) s w)
              = Returns (Some NoPayloadError))
       \<and> files (snd (stitchingCmd_Run (L\<lparr>StitchFITEntries := demo_StitchFITEntries\<rparr>) s w)) = files w
       \<and> files (snd (stitchingCmd_Run (L\<lparr>StitchFITEntries := demo_StitchFITEntries\<rparr>) s w)) (st_BIOS s)
           = Some img"
  using assms
  by (simp add: stitchingCmd_Run_def payloads_empty_def NoPayloadError_def Let_def logged_def
      demo_StitchFITEntries_no_FIT)

theorem stitch_image_without_FIT_signature_witness:
  "files demo_world (st_BIOS demo_stitch) = Some [0, 0, 0, 0]
   \<and> \<not> has_FIT_signature [0, 0, 0, 0]
   \<and> \<not> payloads_empty demo_lib demo_stitch demo_world
   \<and> fst (stitchingCmd_Run demo_lib demo_stitch demo_world) = Returns (Some (Lib FITNotFoundError))
   \<and> files (snd (stitchingCmd_Run demo_lib demo_stitch demo_world)) ''bios.bin'' = Some [0, 0, 0, 0]
   \<and> payloads_empty demo_lib (demo_stitch\<lparr>st_KM := ''none''\<rparr>) demo_world
   \<and> fst (stitchingCmd_Run demo_lib (demo_stitch\<lparr>st_KM := ''none''\<rparr>) demo_world)
       = Returns (Some NoPayloadError)
   \<and> files (snd (stitchingCmd_Run demo_lib (demo_stitch\<lparr>st_KM := ''none''\<rparr>) demo_world)) ''bios.bin''
       = Some [0, 0, 0, 0]"
proof -
  have a: "files demo_world (st_BIOS demo_stitch) = Some [0, 0, 0, 0]"
    and a': "files demo_world (st_BIOS (demo_stitch\<lparr>st_KM := ''none''\<rparr>)) = Some [0, 0, 0, 0]"
    and n: "\<not> has_FIT_signature [0, 0, 0, 0]"
    and p: "\<not> payloads_empty demo_lib demo_stitch demo_world"
    and q: "payloads_empty demo_lib (demo_stitch\<lparr>st_KM := ''none''\<rparr>) demo_world"
    and b: "st_BIOS demo_stitch = ''bios.bin''"
    by (simp_all add: payloads_empty_def demo_stitch_def demo_simps FIT_signature_def)
  from stitch_image_without_FIT_signature [OF a n, of demo_lib]
    stitch_image_without_FIT_signature [OF a' n, of demo_lib] a n p q b
  show ?thesis
    by (simp add: demo_lib_stitcher)
qed

section \<open>The round trip of the codec of the specification (C7)\<close>

lemma and_then_Inr [simp]: "and_then (Inr x) f = f x"
  by (simp add: and_then_def)

lemma and_then_Inl [simp]: "and_then (Inl e) f = Inl e"
  by (simp add: and_then_def)

lemma length_le_bytes [simp]: "length (le_bytes n w) = n"
  by (induction n arbitrary: w) simp_all

lemma le_word_le_bytes: "le_word (le_bytes n w) = take_bit (8 * n) w"
proof (induction n arbitrary: w)
  case 0
  show ?case by simp
next
  case (Suc n)
  show ?case
    apply (simp add: Suc)
    apply (rule bit_word_eqI)
    apply (auto simp: bit_simps)
    done
qed

lemma dec_word_le_bytes:
  assumes "LENGTH('a::len) \<le> 8 * n"
  shows "dec_word n (le_bytes n (w :: 'a word) @ r) = Inr (w, r)"
  using assms by (simp add: dec_word_def le_word_le_bytes take_bit_word_eq_self)

lemma dec_u8 [simp]: "dec_word (Suc 0) (w # r) = Inr (w :: 8 word, r)"
  by (simp add: dec_word_def)

lemma dec_u16 [simp]: "dec_word 2 (le_bytes 2 (w :: 16 word) @ r) = Inr (w, r)"
  by (rule dec_word_le_bytes) simp

lemma dec_u32 [simp]: "dec_word 4 (le_bytes 4 (w :: 32 word) @ r) = Inr (w, r)"
  by (rule dec_word_le_bytes) simp

lemma dec_u64 [simp]: "dec_word 8 (le_bytes 8 (w :: 64 word) @ r) = Inr (w, r)"
  by (rule dec_word_le_bytes) simp

lemma unat_u16_of_nat: "n < 65536 \<Longrightarrow> unat (of_nat n :: 16 word) = n"
  by (simp add: unat_of_nat)

lemma dec_bytes_enc_bytes:
  assumes "length bs < 65536"
  shows "dec_bytes (enc_bytes bs @ r) = Inr (bs, r)"
  using assms by (simp add: dec_bytes_def enc_bytes_def unat_u16_of_nat)

lemma dec_items_concat:
  assumes "\<And>x r. x \<in> set xs \<Longrightarrow> dec (enc x @ r) = Inr (x, r)"
  shows "dec_items dec (length xs) (concat (map enc xs) @ r) = Inr (xs, r)"
  using assms by (induction xs) simp_all

lemma dec_list_enc_list:
  assumes "length xs < 65536"
    and "\<And>x r. x \<in> set xs \<Longrightarrow> dec (enc x @ r) = Inr (x, r)"
  shows "dec_list dec (enc_list enc xs @ r) = Inr (xs, r)"
  using assms by (simp add: dec_list_def enc_list_def unat_u16_of_nat dec_items_concat)

lemma dec_HashStructure_enc:
  assumes "valid_HashStructure h"
  shows "dec_HashStructure (enc_HashStructure h @ r) = Inr (h, r)"
  using assms
  by (simp add: dec_HashStructure_def enc_HashStructure_def valid_HashStructure_def dec_bytes_enc_bytes)

lemma dec_HashList_enc:
  assumes "valid_HashList dl"
  shows "dec_HashList (enc_HashList dl @ r) = Inr (dl, r)"
proof -
  from assms have "dec_list dec_HashStructure (enc_list enc_HashStructure (List_hl dl) @ r) = Inr (List_hl dl, r)"
    by (intro dec_list_enc_list) (auto simp: valid_HashList_def list_all_iff dec_HashStructure_enc)
  with assms show ?thesis
    by (simp add: dec_HashList_def enc_HashList_def valid_HashList_def)
qed

lemma dec_IBBSegment_enc: "dec_IBBSegment (enc_IBBSegment s @ r) = Inr (s, r)"
  by (simp add: dec_IBBSegment_def enc_IBBSegment_def)

lemma dec_SE_enc:
  assumes "length (IBBSegments se) < 65536" and "valid_HashList (DigestList se)"
  shows "dec_SE (enc_SE se @ r) = Inr (se, r)"
proof -
  have segs: "\<And>r. dec_list dec_IBBSegment (enc_list enc_IBBSegment (IBBSegments se) @ r) = Inr (IBBSegments se, r)"
    using assms(1) by (intro dec_list_enc_list) (simp_all add: dec_IBBSegment_enc)
  show ?thesis
    by (simp add: dec_SE_def enc_SE_def segs dec_HashList_enc [OF assms(2)])
qed

lemma dec_TXT_enc: "dec_TXT (enc_TXT t @ r) = Inr (t, r)"
  by (simp add: dec_TXT_def enc_TXT_def)

lemma dec_KeySignature_enc:
  assumes "length (KeyData (Key ks)) < 65536" and "length (SigData (Signature ks)) < 65536"
  shows "dec_KeySignature (enc_KeySignature ks @ r) = Inr (ks, r)"
  using assms by (simp add: dec_KeySignature_def enc_KeySignature_def dec_bytes_enc_bytes)

lemma dec_key_Hash_enc:
  assumes "valid_HashStructure (Digest h)"
  shows "dec_key_Hash (enc_key_Hash h @ r) = Inr (h, r)"
  using assms by (simp add: dec_key_Hash_def enc_key_Hash_def dec_HashStructure_enc)

lemma dec_KeyManifestBody_enc:
  assumes "length (kb_Hash b) < 65536" and "list_all (\<lambda>h. valid_HashStructure (Digest h)) (kb_Hash b)"
  shows "dec_KeyManifestBody (enc_KeyManifestBody b @ r) = Inr (b, r)"
proof -
  have hs: "\<And>r. dec_list dec_key_Hash (enc_list enc_key_Hash (kb_Hash b) @ r) = Inr (kb_Hash b, r)"
    using assms by (intro dec_list_enc_list) (auto simp: list_all_iff dec_key_Hash_enc)
  show ?thesis
    by (simp add: dec_KeyManifestBody_def enc_KeyManifestBody_def hs)
qed

lemma dec_payload_element_payload:
  assumes "valid_fields e"
  shows "dec_payload (element_tag e) (element_payload e) = Inr e"
proof (cases e)
  case (IBBElement se)
  with assms dec_SE_enc [of se "[]"] show ?thesis by (simp add: dec_payload_def)
next
  case (TXTElement t)
  with dec_TXT_enc [of t "[]"] show ?thesis by (simp add: dec_payload_def)
next
  case (SignatureElement ks)
  with assms dec_KeySignature_enc [of ks "[]"] show ?thesis by (simp add: dec_payload_def)
next
  case (KeyManifestBodyElement b)
  with assms dec_KeyManifestBody_enc [of b "[]"] show ?thesis by (simp add: dec_payload_def)
qed

lemma decode_element_encode:
  assumes "valid_element e"
  shows "decode_element (encode e @ r) = Inr (e, r)"
proof -
  from assms have len: "unat (of_nat (length (element_payload e)) :: 16 word) = length (element_payload e)"
    by (simp add: valid_element_def unat_u16_of_nat)
  have "dec_word 1 (encode e @ r)
      = Inr (element_tag e, le_bytes 2 (of_nat (length (element_payload e)) :: 16 word) @ element_payload e @ r)"
    by (simp add: dec_word_def encode_def)
  with assms len show ?thesis
    by (simp add: decode_element_def valid_element_def dec_payload_element_payload)
qed


lemma encode_not_Nil: "encode e \<noteq> []"
  by (simp add: encode_def)

lemma dec_elements_Nil: "dec_elements n [] = Inr []"
  by (cases n) simp_all

lemma dec_elements_concat:
  assumes "list_all valid_element els" and "length els \<le> n"
  shows "dec_elements n (concat (map encode els)) = Inr els"
  using assms
proof (induction els arbitrary: n)
  case Nil
  show ?case by (simp add: dec_elements_Nil)
next
  case (Cons e els)
  from Cons.prems(2) obtain n' where n: "n = Suc n'" and le: "length els \<le> n'"
    by (cases n) simp_all
  from Cons.prems(1) have ve: "valid_element e" and vs: "list_all valid_element els"
    by simp_all
  from Cons.IH [OF vs le] decode_element_encode [OF ve] show ?case
    by (simp add: n encode_not_Nil)
qed

lemma length_concat_encode: "length els \<le> length (concat (map encode els))"
proof (induction els)
  case Nil
  show ?case by simp
next
  case (Cons e els)
  have "Suc 0 \<le> length (encode e)" by (simp add: encode_def)
  with Cons have "Suc (length els) \<le> length (encode e) + length (concat (map encode els))"
    by arith
  then show ?case by simp
qed

lemma one_signature_last_Cons:
  assumes "\<not> is_SignatureElement e" and "one_signature_last els"
  shows "one_signature_last (e # els)"
  using assms by (auto simp: one_signature_last_def)

lemma bpm_tail_one_signature_last: "bpm_tail els \<Longrightarrow> one_signature_last els"
  by (induction els rule: bpm_tail.induct) (simp_all add: one_signature_last_def)

lemma bpm_order_one_signature_last: "bpm_order els \<Longrightarrow> one_signature_last els"
proof (induction els rule: bpm_order.induct)
  case (1 se els)
  then have "one_signature_last els"
    by (auto simp: bpm_tail_one_signature_last)
  then show ?case
    by (simp add: one_signature_last_Cons)
qed simp_all

lemma km_order_one_signature_last: "km_order els \<Longrightarrow> one_signature_last els"
  by (induction els rule: km_order.induct) (simp_all add: one_signature_last_def)

lemma dec_header_enc: "dec_header (enc_header h @ r) = Inr (h, r)"
  by (simp add: dec_header_def enc_header_def)

lemma disassemble_assembled:
  assumes "valid_Manifest m"
  shows "assemble m = Inr (enc_header (mf_header m) @ concat (map encode (mf_elements m)))"
    and "disassemble (enc_header (mf_header m) @ concat (map encode (mf_elements m))) = Inr m"
proof -
  from assms have co: "canonical_order (mf_elements m)"
    by (auto simp: valid_Manifest_def canonical_order_def)
  then show "assemble m = Inr (enc_header (mf_header m) @ concat (map encode (mf_elements m)))"
    by (simp add: assemble_def)
  from co have sig: "one_signature_last (mf_elements m)"
    by (auto simp: canonical_order_def bpm_order_one_signature_last km_order_one_signature_last)
  from assms have "list_all valid_element (mf_elements m)"
    by (simp add: valid_Manifest_def)
  then have "dec_elements (length (concat (map encode (mf_elements m)))) (concat (map encode (mf_elements m)))
      = Inr (mf_elements m)"
    by (rule dec_elements_concat) (rule length_concat_encode)
  with sig show "disassemble (enc_header (mf_header m) @ concat (map encode (mf_elements m))) = Inr m"
    by (simp add: disassemble_def dec_header_enc)
qed

lemma decode_encode:
  assumes "valid_element e"
  shows "decode (encode e) 0 = Inr (e, length (encode e))"
  using decode_element_encode [OF assms, of "[]"] by (simp add: decode_def)

text \<open>
  Claim C7. For every valid manifest, disassembling the bytes produced by assembling it
  yields the manifest again, field for field; and for every valid element, decoding its
  encoding yields the element and consumes exactly the encoding.
\<close>

theorem disassemble_assemble_round_trip:
  "(valid_Manifest m \<longrightarrow> and_then (assemble m) disassemble = Inr m)
   \<and> (valid_element e \<longrightarrow> decode (encode e) 0 = Inr (e, length (encode e)))"
  by (simp add: disassemble_assembled decode_encode)

lemma valid_demo_manifest: "valid_Manifest demo_manifest"
  by (simp add: valid_Manifest_def demo_manifest_def valid_element_def valid_HashList_def
      valid_HashStructure_def enc_SE_def enc_KeySignature_def enc_list_def enc_HashList_def
      enc_bytes_def enc_HashStructure_def enc_IBBSegment_def)

theorem disassemble_assemble_round_trip_witness:
  "valid_Manifest demo_manifest
   \<and> and_then (assemble demo_manifest) disassemble = Inr demo_manifest
   \<and> valid_element (hd (mf_elements demo_manifest))
   \<and> decode (encode (hd (mf_elements demo_manifest))) 0
       = Inr (hd (mf_elements demo_manifest), length (encode (hd (mf_elements demo_manifest))))"
proof -
  have v: "valid_Manifest demo_manifest"
    by (rule valid_demo_manifest)
  then have e: "valid_element (hd (mf_elements demo_manifest))"
    by (simp add: valid_Manifest_def demo_manifest_def)
  show ?thesis
    using v e disassemble_assemble_round_trip [of demo_manifest "hd (mf_elements demo_manifest)"]
    by simp
qed

end
